theory Spec2Isabelle
  imports Main "HOL-Library.Sublist"
begin

section \<open>Python values and string helpers\<close>

text \<open>
  The values that flow through the chat session: \<open>None\<close>, strings, integers and
  dictionaries with string keys. A dictionary is an association list in insertion
  order, looked up with \<open>map_of\<close>. Strings are \<open>string\<close>; a character stands for
  one code point below 256.
\<close>

datatype pyval =
    PNone
  | PStr string
  | PInt int
  | PDict "(string \<times> pyval) list"

text \<open>\<open>d.get(k, default)\<close>.\<close>

definition dict_get :: "(string \<times> pyval) list \<Rightarrow> string \<Rightarrow> pyval \<Rightarrow> pyval" where
  "dict_get kvs k d = (case map_of kvs k of None \<Rightarrow> d | Some v \<Rightarrow> v)"

text \<open>\<open>s.startswith(p)\<close> and \<open>p in s\<close> on strings.\<close>

definition startswith :: "string \<Rightarrow> string \<Rightarrow> bool" where
  "startswith s p = (take (length p) s = p)"

fun str_contains :: "string \<Rightarrow> string \<Rightarrow> bool" where
  "str_contains p [] = (p = [])"
| "str_contains p (c # cs) = (startswith (c # cs) p \<or> str_contains p cs)"

text \<open>\<open>sep.join(xs)\<close> and \<open>s.strip()\<close>; the whitespace code points below 256.\<close>

fun str_join :: "string \<Rightarrow> string list \<Rightarrow> string" where
  "str_join sep [] = []"
| "str_join sep [x] = x"
| "str_join sep (x # y # ys) = x @ sep @ str_join sep (y # ys)"

definition isspace :: "char \<Rightarrow> bool" where
  "isspace c = ((of_char c :: nat) \<in> {9, 10, 11, 12, 13, 28, 29, 30, 31, 32, 133, 160})"

definition strip :: "string \<Rightarrow> string" where
  "strip s = rev (dropWhile isspace (rev (dropWhile isspace s)))"

section \<open>The session and the remote API\<close>

text \<open>
  \<open>OpenAIChatSession\<close>: the fields set by \<open>__init__\<close>. The SDK client and the
  tokenizer are external; they are parameters of the operations below.
\<close>

record OpenAIChatSession =
  api_key :: string
  model :: string
  reasoning_effort :: "string option"
  previous_response_id :: "string option"
  token_count :: int

definition OpenAIChatSession_init :: "string \<Rightarrow> string \<Rightarrow> OpenAIChatSession" where
  "OpenAIChatSession_init key m =
     \<lparr> api_key = key, model = m, reasoning_effort = None,
       previous_response_id = None, token_count = 0 \<rparr>"

text \<open>One entry \<open>{"role": ..., "content": ...}\<close> of the input payload.\<close>

datatype input_message = InputMessage (msg_role: pyval) (msg_content: pyval)

text \<open>
  The keyword arguments of \<open>responses.create\<close>. An optional key that the code
  leaves out of \<open>kwargs\<close> is \<open>None\<close>.
\<close>

record request =
  req_model :: string
  req_input :: "input_message list"
  req_store :: bool
  req_previous_response_id :: "string option"
  req_reasoning :: "string option"

text \<open>
  What the code reads of a response object. \<open>output_text = None\<close> stands for the
  attribute access raising, which sends the code to the aggregation over \<open>output\<close>.
  \<open>response_id\<close> is \<open>getattr(response, "id", None)\<close>.
\<close>

record content_part =
  part_type :: "string option"
  part_text :: string

record output_item =
  item_type :: "string option"
  item_content :: "content_part list"

record response =
  output_text :: "string option"
  output_items :: "output_item list"
  response_id :: "string option"

text \<open>
  The remote service: given its own state and a request it either raises (\<open>Inl\<close> of
  the exception's text) or returns a response, and moves to a new state.
\<close>

type_synonym 'w api = "'w \<Rightarrow> request \<Rightarrow> (string + response) \<times> 'w"

text \<open>The fallback aggregation of lines 127-138, and the extraction as a whole.\<close>

definition item_texts :: "output_item \<Rightarrow> string list" where
  "item_texts item =
     (if item_type item = Some ''message''
      then map part_text
             (filter (\<lambda>c. part_type c = Some ''output_text'' \<and> part_text c \<noteq> [])
                (item_content item))
      else [])"

definition extract_reply_text :: "response \<Rightarrow> string option" where
  "extract_reply_text r =
     (case output_text r of
        Some t \<Rightarrow> Some t
      | None \<Rightarrow>
          (let texts = concat (map item_texts (output_items r))
           in if texts \<noteq> [] then Some (strip (str_join [CHR 0x0A] texts)) else None))"

text \<open>\<open>_is_reasoning_compatible_model\<close>.\<close>

definition is_reasoning_compatible_model :: "string \<Rightarrow> bool" where
  "is_reasoning_compatible_model model_name =
     (model_name \<noteq> [] \<and> startswith model_name ''gpt-5'')"

definition reasoning_kwarg :: "OpenAIChatSession \<Rightarrow> string option" where
  "reasoning_kwarg s =
     (if is_reasoning_compatible_model (model s)
         \<and> reasoning_effort s \<in> {Some ''low'', Some ''medium'', Some ''high''}
      then reasoning_effort s else None)"

text \<open>
  The loop that turns the stored history into API messages (lines 93-104, repeated at
  154-164): a record that is not a dict becomes a user message with empty content, and
  the internal role \<open>model\<close> becomes \<open>assistant\<close>.
\<close>

definition history_message :: "pyval \<Rightarrow> input_message" where
  "history_message m =
     (let role = (case m of PDict kvs \<Rightarrow> dict_get kvs ''role'' (PStr ''user'')
                           | _ \<Rightarrow> PStr ''user'');
          content = (case m of PDict kvs \<Rightarrow> dict_get kvs ''message_text'' (PStr '''')
                              | _ \<Rightarrow> PStr '''');
          role_api = (if role = PStr ''model'' then PStr ''assistant'' else role)
      in InputMessage role_api content)"

definition user_message :: "string \<Rightarrow> input_message" where
  "user_message prompt = InputMessage (PStr ''user'') (PStr prompt)"

definition history_truthy :: "pyval list option \<Rightarrow> bool" where
  "history_truthy history = (case history of None \<Rightarrow> False | Some h \<Rightarrow> h \<noteq> [])"

definition history_or_empty :: "pyval list option \<Rightarrow> pyval list" where
  "history_or_empty history = (case history of None \<Rightarrow> [] | Some h \<Rightarrow> h)"

definition full_payload :: "string \<Rightarrow> pyval list option \<Rightarrow> input_message list" where
  "full_payload prompt history =
     map history_message (history_or_empty history) @ [user_message prompt]"

definition id_truthy :: "string option \<Rightarrow> bool" where
  "id_truthy i = (case i of None \<Rightarrow> False | Some s \<Rightarrow> s \<noteq> [])"

definition first_request :: "OpenAIChatSession \<Rightarrow> string \<Rightarrow> pyval list option \<Rightarrow> request" where
  "first_request s prompt history =
     \<lparr> req_model = model s,
       req_input = (if \<not> id_truthy (previous_response_id s) \<and> history_truthy history
                    then full_payload prompt history else [user_message prompt]),
       req_store = True,
       req_previous_response_id =
         (if id_truthy (previous_response_id s) then previous_response_id s else None),
       req_reasoning = reasoning_kwarg s \<rparr>"

definition retry_request :: "OpenAIChatSession \<Rightarrow> string \<Rightarrow> pyval list option \<Rightarrow> request" where
  "retry_request s prompt history =
     \<lparr> req_model = model s,
       req_input = (if history_truthy history
                    then full_payload prompt history else [user_message prompt]),
       req_store = True,
       req_previous_response_id = None,
       req_reasoning = reasoning_kwarg s \<rparr>"

definition lost_thread_error :: "string \<Rightarrow> bool" where
  "lost_thread_error err_text =
     (str_contains ''previous_response_not_found'' err_text
      \<or> str_contains ''Previous response'' err_text)"

text \<open>
  The outcome of \<open>send_message_to_OpenAI_API\<close>: the returned text, the session after
  the call, the remote service after the call, and the requests issued, in order.
\<close>

record 'w send_result =
  reply :: "string option"
  session_after :: OpenAIChatSession
  world_after :: 'w
  requests :: "request list"

definition send_message_to_OpenAI_API ::
  "'w api \<Rightarrow> 'w \<Rightarrow> OpenAIChatSession \<Rightarrow> string \<Rightarrow> pyval list option \<Rightarrow> 'w send_result" where
  "send_message_to_OpenAI_API api w s prompt history =
     (let kwargs = first_request s prompt history in
      case api w kwargs of
        (Inr resp, w1) \<Rightarrow>
          \<lparr> reply = extract_reply_text resp,
            session_after = s\<lparr>previous_response_id := response_id resp\<rparr>,
            world_after = w1,
            requests = [kwargs] \<rparr>
      | (Inl err_text, w1) \<Rightarrow>
          if lost_thread_error err_text then
            (let s1 = s\<lparr>previous_response_id := None\<rparr>;
                 kwargs_retry = retry_request s1 prompt history in
             case api w1 kwargs_retry of
               (Inr resp, w2) \<Rightarrow>
                 \<lparr> reply = extract_reply_text resp,
                   session_after = s1\<lparr>previous_response_id := response_id resp\<rparr>,
                   world_after = w2,
                   requests = [kwargs, kwargs_retry] \<rparr>
             | (Inl e2, w2) \<Rightarrow>
                 \<lparr> reply = None, session_after = s1, world_after = w2,
                   requests = [kwargs, kwargs_retry] \<rparr>)
          else
            \<lparr> reply = None, session_after = s, world_after = w1, requests = [kwargs] \<rparr>)"

section \<open>Token counting\<close>

text \<open>
  The tokenizer library is external: \<open>encoding_for_model\<close> and \<open>get_encoding\<close> return an
  encoding or raise (\<open>None\<close>), and \<open>encode\<close> returns the token list of its argument or
  raises (\<open>None\<close>).
\<close>

record 'e tiktoken =
  encoding_for_model :: "string \<Rightarrow> 'e option"
  get_encoding :: "string \<Rightarrow> 'e option"
  encode :: "'e \<Rightarrow> pyval \<Rightarrow> nat list option"

text \<open>\<open>_get_encoding_for_model\<close>, with its fallbacks.\<close>

definition get_encoding_for_model :: "'e tiktoken \<Rightarrow> string \<Rightarrow> 'e option" where
  "get_encoding_for_model tk model_name =
     (case encoding_for_model tk model_name of
        Some e \<Rightarrow> Some e
      | None \<Rightarrow>
          (if model_name \<noteq> []
               \<and> (str_contains ''gpt-4o'' model_name \<or> startswith model_name ''o''
                    \<or> str_contains ''omni'' model_name)
           then (case get_encoding tk ''o200k_base'' of
                   Some e \<Rightarrow> Some e
                 | None \<Rightarrow> get_encoding tk ''cl100k_base'')
           else get_encoding tk ''cl100k_base''))"

text \<open>The text a history record contributes to the count (line 234).\<close>

definition message_text_of :: "pyval \<Rightarrow> pyval" where
  "message_text_of m =
     (case m of PDict kvs \<Rightarrow> dict_get kvs ''message_text'' (PStr '''') | _ \<Rightarrow> PStr '''')"

text \<open>The loop of \<open>update_token_count\<close>; \<open>None\<close> when an \<open>encode\<close> raises.\<close>

fun sum_tokens :: "'e tiktoken \<Rightarrow> 'e \<Rightarrow> int \<Rightarrow> pyval list \<Rightarrow> int option" where
  "sum_tokens tk enc total_sum [] = Some total_sum"
| "sum_tokens tk enc total_sum (m # ms) =
     (case encode tk enc (message_text_of m) of
        None \<Rightarrow> None
      | Some tokens \<Rightarrow> sum_tokens tk enc (total_sum + int (length tokens)) ms)"

definition update_token_count ::
  "'e tiktoken \<Rightarrow> OpenAIChatSession \<Rightarrow> pyval list option \<Rightarrow> OpenAIChatSession" where
  "update_token_count tk s history =
     (case get_encoding_for_model tk (model s) of
        None \<Rightarrow> s
      | Some enc \<Rightarrow>
          (case sum_tokens tk enc 0 (history_or_empty history) of
             None \<Rightarrow> s
           | Some total_sum \<Rightarrow> s\<lparr>token_count := total_sum\<rparr>))"






section \<open>Conversations\<close>

record Conversation =
  name :: string
  chat_history :: "pyval list"
  OpenAI_chat_session :: OpenAIChatSession

definition Conversation_init :: "string \<Rightarrow> string \<Rightarrow> string \<Rightarrow> Conversation" where
  "Conversation_init key nm m =
     \<lparr> name = nm, chat_history = [], OpenAI_chat_session = OpenAIChatSession_init key m \<rparr>"

definition history_record :: "string \<Rightarrow> string \<Rightarrow> pyval" where
  "history_record role text = PDict [(''role'', PStr role), (''message_text'', PStr text)]"

record 'w conversation_result =
  returned :: "string option"
  conversation_after :: Conversation
  service_after :: 'w
  requests_made :: "request list"

definition send_message ::
  "'w api \<Rightarrow> 'e tiktoken \<Rightarrow> 'w \<Rightarrow> Conversation \<Rightarrow> string \<Rightarrow> 'w conversation_result" where
  "send_message api tk w c prompt =
     (let r = send_message_to_OpenAI_API api w (OpenAI_chat_session c) prompt
                (Some (chat_history c))
      in case reply r of
           Some ai_reply_text \<Rightarrow>
             if ai_reply_text \<noteq> [] then
               (let h = chat_history c @ [history_record ''user'' prompt]
                          @ [history_record ''model'' ai_reply_text]
                in \<lparr> returned = Some ai_reply_text,
                     conversation_after =
                       c\<lparr>chat_history := h,
                         OpenAI_chat_session := update_token_count tk (session_after r) (Some h)\<rparr>,
                     service_after = world_after r,
                     requests_made = requests r \<rparr>)
             else
               \<lparr> returned = None,
                 conversation_after = c\<lparr>OpenAI_chat_session := session_after r\<rparr>,
                 service_after = world_after r,
                 requests_made = requests r \<rparr>
         | None \<Rightarrow>
             \<lparr> returned = None,
               conversation_after = c\<lparr>OpenAI_chat_session := session_after r\<rparr>,
               service_after = world_after r,
               requests_made = requests r \<rparr>)"

definition get_api_key :: "Conversation \<Rightarrow> string" where
  "get_api_key c = api_key (OpenAI_chat_session c)"

definition get_model_name :: "Conversation \<Rightarrow> string" where
  "get_model_name c = model (OpenAI_chat_session c)"

definition get_history :: "Conversation \<Rightarrow> pyval list" where
  "get_history c = chat_history c"

text \<open>
  The states a conversation can be in: created by \<open>Conversation_init\<close>, then changed by
  \<open>send_message\<close> (with the remote service in any state) and by the two places of
  the user interface that assign \<open>reasoning_effort\<close>.
\<close>

definition set_reasoning_effort :: "Conversation \<Rightarrow> string \<Rightarrow> Conversation" where
  "set_reasoning_effort c effort =
     (if is_reasoning_compatible_model (get_model_name c)
         \<and> effort \<in> {''low'', ''medium'', ''high''}
      then c\<lparr>OpenAI_chat_session := (OpenAI_chat_session c)\<lparr>reasoning_effort := Some effort\<rparr>\<rparr>
      else c)"

inductive reachable :: "'w api \<Rightarrow> 'e tiktoken \<Rightarrow> string \<Rightarrow> string \<Rightarrow> Conversation \<Rightarrow> bool"
  for api :: "'w api" and tk :: "'e tiktoken" and key :: string and m :: string where
  created: "reachable api tk key m (Conversation_init key nm m)"
| sent: "reachable api tk key m c \<Longrightarrow>
         reachable api tk key m (conversation_after (send_message api tk w c prompt))"
| effort_set: "reachable api tk key m c \<Longrightarrow>
         reachable api tk key m (set_reasoning_effort c effort)"

text \<open>
  The shape of a stored history: an even number of role/text records, a \<open>user\<close>
  record at every even position and a \<open>model\<close> record at every odd one.
\<close>

definition history_shape :: "pyval list \<Rightarrow> bool" where
  "history_shape h \<longleftrightarrow>
     even (length h)
     \<and> (\<forall>i < length h. \<exists>text. h ! i =
           PDict [(''role'', PStr (if even i then ''user'' else ''model'')),
                  (''message_text'', PStr text)])"

section \<open>The message list of the user interface\<close>

text \<open>
  The part of \<open>AIChatApp\<close> that the message list touches. The tree widget is
  external: \<open>insert\<close> appends an item and returns a fresh item id, which here is
  the value of a counter. \<open>message_node_to_content\<close> and \<open>conversation_ids\<close> are the
  two dictionaries of the application.
\<close>

record tree_item =
  item_id :: nat
  item_text :: string
  item_tags :: "string list"

record AIChatApp =
  messages_tree :: "tree_item list"
  tree_counter :: nat
  message_node_to_content :: "nat \<rightharpoonup> pyval"
  conversation_ids :: "string \<rightharpoonup> nat list"

definition tree_insert :: "AIChatApp \<Rightarrow> string \<Rightarrow> string list \<Rightarrow> nat \<times> AIChatApp" where
  "tree_insert app text tags =
     (tree_counter app,
      app\<lparr>messages_tree :=
            messages_tree app
              @ [\<lparr> item_id = tree_counter app, item_text = text, item_tags = tags \<rparr>],
          tree_counter := Suc (tree_counter app)\<rparr>)"

text \<open>\<open>str.capitalize\<close> on the letters a-z and A-Z.\<close>

definition upper_char :: "char \<Rightarrow> char" where
  "upper_char c =
     (let n = (of_char c :: nat) in if 97 \<le> n \<and> n \<le> 122 then char_of (n - 32) else c)"

definition lower_char :: "char \<Rightarrow> char" where
  "lower_char c =
     (let n = (of_char c :: nat) in if 65 \<le> n \<and> n \<le> 90 then char_of (n + 32) else c)"

definition capitalize :: "string \<Rightarrow> string" where
  "capitalize s = (case s of [] \<Rightarrow> [] | c # cs \<Rightarrow> upper_char c # map lower_char cs)"

definition insert_message_to_treeview ::
  "AIChatApp \<Rightarrow> string \<Rightarrow> string \<Rightarrow> nat \<times> AIChatApp" where
  "insert_message_to_treeview app role message_content =
     (let tags = (if role = ''model'' then [''ai_message''] else []);
          display_text = (if length message_content > 20
                          then take 20 message_content @ ''...''
                          else message_content)
      in tree_insert app (capitalize role @ '': '' @ display_text) tags)"

text \<open>
  \<open>message['role']\<close> and \<open>message['message_text']\<close> as read by
  \<open>_display_conversation_in_treeview\<close>: a string stored under the key. A message that
  is not a dict, a missing key, and a role or text that is \<open>None\<close> or an integer make
  the loop raise, which is \<open>None\<close> here; a dict stored as the text is not a value
  \<open>send_message\<close> writes and is rejected as well.
\<close>

definition subscript_str :: "pyval \<Rightarrow> string \<Rightarrow> string option" where
  "subscript_str message k =
     (case message of
        PDict kvs \<Rightarrow> (case map_of kvs k of Some (PStr t) \<Rightarrow> Some t | _ \<Rightarrow> None)
      | _ \<Rightarrow> None)"

fun display_messages :: "string \<Rightarrow> AIChatApp \<Rightarrow> pyval list \<Rightarrow> AIChatApp option" where
  "display_messages conversation_name app [] = Some app"
| "display_messages conversation_name app (message # rest) =
     (case (subscript_str message ''role'', subscript_str message ''message_text'') of
        (Some role, Some message_text) \<Rightarrow>
          (let (message_node_id, app1) = insert_message_to_treeview app role message_text
           in case conversation_ids app1 conversation_name of
                None \<Rightarrow> None
              | Some ids \<Rightarrow>
                  display_messages conversation_name
                    (app1\<lparr>conversation_ids :=
                            (conversation_ids app1)(conversation_name \<mapsto> ids @ [message_node_id]),
                          message_node_to_content :=
                            (message_node_to_content app1)(message_node_id \<mapsto> message)\<rparr>)
                    rest)
      | _ \<Rightarrow> None)"

definition display_conversation_in_treeview :: "AIChatApp \<Rightarrow> Conversation \<Rightarrow> AIChatApp option" where
  "display_conversation_in_treeview app conversation =
     display_messages (name conversation)
       (app\<lparr>messages_tree := [],
            message_node_to_content := Map.empty,
            conversation_ids := (conversation_ids app)(name conversation \<mapsto> [])\<rparr>)
       (get_history conversation)"

text \<open>
  The bookkeeping of \<open>send_prompt\<close> after a reply has arrived (lines 816-835), for
  a non-empty conversation name read from the combobox.
\<close>

definition send_prompt_store :: "AIChatApp \<Rightarrow> string \<Rightarrow> string \<Rightarrow> string \<Rightarrow> AIChatApp" where
  "send_prompt_store app current_conversation_name prompt_text ai_reply_text =
     (let (user_message_node_id, app1) = insert_message_to_treeview app ''user'' prompt_text;
          (ai_message_node_id, app2) = insert_message_to_treeview app1 ''model'' ai_reply_text;
          ids = (case conversation_ids app2 current_conversation_name of
                   None \<Rightarrow> [] | Some l \<Rightarrow> l)
      in app2\<lparr>conversation_ids :=
                (conversation_ids app2)(current_conversation_name \<mapsto>
                   ids @ [user_message_node_id, ai_message_node_id]),
              message_node_to_content :=
                (message_node_to_content app2)
                  (user_message_node_id \<mapsto> history_record ''user'' prompt_text,
                   ai_message_node_id \<mapsto> history_record ''model'' ai_reply_text)\<rparr>)"

section \<open>A scripted service and tokenizers for concrete runs\<close>

text \<open>
  A remote service that answers from a script: each request consumes the next
  scripted outcome, and an exhausted script raises a connection error.
\<close>

definition scripted_api :: "(string + response) list api" where
  "scripted_api w req =
     (case w of [] \<Rightarrow> (Inl ''connection error'', []) | outcome # rest \<Rightarrow> (outcome, rest))"

definition text_response :: "string option \<Rightarrow> string \<Rightarrow> response" where
  "text_response rid t = \<lparr> output_text = Some t, output_items = [], response_id = rid \<rparr>"

text \<open>A tokenizer with one token per character, which rejects what is not a string.\<close>

definition char_tokenizer :: "unit tiktoken" where
  "char_tokenizer =
     \<lparr> encoding_for_model = (\<lambda>m. Some ()),
       get_encoding = (\<lambda>n. Some ()),
       encode = (\<lambda>e v. case v of PStr t \<Rightarrow> Some (map of_char t) | _ \<Rightarrow> None) \<rparr>"

text \<open>
  A tokenizer with one token per character that raises on a text containing the
  special token \<open><|endoftext|>\<close>, and on what is not a string.
\<close>

definition special_token_tokenizer :: "unit tiktoken" where
  "special_token_tokenizer =
     \<lparr> encoding_for_model = (\<lambda>m. Some ()),
       get_encoding = (\<lambda>n. Some ()),
       encode = (\<lambda>e v. case v of
                   PStr t \<Rightarrow> if str_contains ''<|endoftext|>'' t then None
                             else Some (map of_char t)
                 | _ \<Rightarrow> None) \<rparr>"

section \<open>Frame and unfolding lemmas\<close>

lemma send_frame:
  "api_key (session_after (send_message_to_OpenAI_API api w s prompt history)) = api_key s"
  "model (session_after (send_message_to_OpenAI_API api w s prompt history)) = model s"
  "reasoning_effort (session_after (send_message_to_OpenAI_API api w s prompt history)) = reasoning_effort s"
  "token_count (session_after (send_message_to_OpenAI_API api w s prompt history)) = token_count s"
  by (simp_all add: send_message_to_OpenAI_API_def Let_def split: prod.splits sum.splits)

lemma update_token_count_frame:
  "api_key (update_token_count tk s history) = api_key s"
  "model (update_token_count tk s history) = model s"
  "reasoning_effort (update_token_count tk s history) = reasoning_effort s"
  "previous_response_id (update_token_count tk s history) = previous_response_id s"
  by (simp_all add: update_token_count_def split: option.splits)

lemma send_message_history:
  "chat_history (conversation_after (send_message api tk w c prompt)) =
     (case reply (send_message_to_OpenAI_API api w (OpenAI_chat_session c) prompt (Some (chat_history c))) of
        None \<Rightarrow> chat_history c
      | Some t \<Rightarrow> if t = [] then chat_history c
                  else chat_history c @ [history_record ''user'' prompt, history_record ''model'' t])"
  by (simp add: send_message_def Let_def split: option.splits)

lemma send_message_returned:
  "returned (send_message api tk w c prompt) =
     (case reply (send_message_to_OpenAI_API api w (OpenAI_chat_session c) prompt (Some (chat_history c))) of
        None \<Rightarrow> None
      | Some t \<Rightarrow> if t = [] then None else Some t)"
  by (simp add: send_message_def Let_def split: option.splits)

lemma send_message_session:
  "api_key (OpenAI_chat_session (conversation_after (send_message api tk w c prompt))) = api_key (OpenAI_chat_session c)"
  "model (OpenAI_chat_session (conversation_after (send_message api tk w c prompt))) = model (OpenAI_chat_session c)"
  by (simp_all add: send_message_def Let_def send_frame update_token_count_frame split: option.splits)

text \<open>The definitions unfolded when a concrete run is evaluated.\<close>

lemmas eval_defs = send_message_def send_message_to_OpenAI_API_def scripted_api_def
  first_request_def retry_request_def full_payload_def history_message_def user_message_def
  history_truthy_def history_or_empty_def id_truthy_def reasoning_kwarg_def
  is_reasoning_compatible_model_def startswith_def lost_thread_error_def
  extract_reply_text_def text_response_def Conversation_init_def OpenAIChatSession_init_def
  history_record_def update_token_count_def get_encoding_for_model_def char_tokenizer_def
  message_text_of_def dict_get_def Let_def

section \<open>The history is append-only\<close>

text \<open>
  C1. \<open>Conversation.send_message\<close> only appends to \<open>chat_history\<close>: the old history is
  a prefix of the new one; when the session returns a non-empty reply, exactly the user
  record and then the model record are appended and the reply is returned; when the
  session returns \<open>None\<close>, the history is unchanged and \<open>None\<close> is returned.
\<close>

theorem send_message_appends_only:
  "prefix (chat_history c) (chat_history (conversation_after (send_message api tk w c prompt)))
   \<and> (\<forall>t. reply (send_message_to_OpenAI_API api w (OpenAI_chat_session c) prompt
                  (Some (chat_history c))) = Some t \<and> t \<noteq> [] \<longrightarrow>
          chat_history (conversation_after (send_message api tk w c prompt)) =
            chat_history c
              @ [PDict [(''role'', PStr ''user''), (''message_text'', PStr prompt)],
                 PDict [(''role'', PStr ''model''), (''message_text'', PStr t)]]
          \<and> returned (send_message api tk w c prompt) = Some t)
   \<and> (reply (send_message_to_OpenAI_API api w (OpenAI_chat_session c) prompt
              (Some (chat_history c))) = None \<longrightarrow>
          chat_history (conversation_after (send_message api tk w c prompt)) = chat_history c
          \<and> returned (send_message api tk w c prompt) = None)"
  by (simp add: send_message_history send_message_returned history_record_def split: option.splits)

theorem send_message_appends_only_witness:
  "reply (send_message_to_OpenAI_API scripted_api
            [Inr (text_response (Some ''resp_1'') ''Hello!'')]
            (OpenAI_chat_session (Conversation_init ''sk-test'' ''Chat 1'' ''gpt-4o'')) ''Hi''
            (Some (chat_history (Conversation_init ''sk-test'' ''Chat 1'' ''gpt-4o''))))
     = Some ''Hello!''
   \<and> chat_history (conversation_after (send_message scripted_api char_tokenizer
         [Inr (text_response (Some ''resp_1'') ''Hello!'')]
         (Conversation_init ''sk-test'' ''Chat 1'' ''gpt-4o'') ''Hi''))
     = [PDict [(''role'', PStr ''user''), (''message_text'', PStr ''Hi'')],
        PDict [(''role'', PStr ''model''), (''message_text'', PStr ''Hello!'')]]
   \<and> reply (send_message_to_OpenAI_API scripted_api []
            (OpenAI_chat_session (Conversation_init ''sk-test'' ''Chat 1'' ''gpt-4o'')) ''Hi''
            (Some (chat_history (Conversation_init ''sk-test'' ''Chat 1'' ''gpt-4o''))))
     = None
   \<and> returned (send_message scripted_api char_tokenizer []
         (Conversation_init ''sk-test'' ''Chat 1'' ''gpt-4o'') ''Hi'') = None"
proof -
  let ?c = "Conversation_init ''sk-test'' ''Chat 1'' ''gpt-4o''"
  have ok: "reply (send_message_to_OpenAI_API scripted_api
            [Inr (text_response (Some ''resp_1'') ''Hello!'')]
            (OpenAI_chat_session ?c) ''Hi'' (Some (chat_history ?c))) = Some ''Hello!''"
    by (simp add: eval_defs)
  have bad: "reply (send_message_to_OpenAI_API scripted_api []
            (OpenAI_chat_session ?c) ''Hi'' (Some (chat_history ?c))) = None"
    by (simp add: eval_defs)
  have empty: "chat_history ?c = []"
    by (simp add: Conversation_init_def)
  from send_message_appends_only
         [of ?c scripted_api char_tokenizer "[Inr (text_response (Some ''resp_1'') ''Hello!'')]" "''Hi''"]
       send_message_appends_only [of ?c scripted_api char_tokenizer "[]" "''Hi''"]
       ok bad empty
  show ?thesis by simp
qed

section \<open>The reasoning-effort parameter\<close>

lemma startswith_prefix: "startswith s p \<longleftrightarrow> prefix p s"
  unfolding startswith_def
proof
  assume "take (length p) s = p"
  then have "s = p @ drop (length p) s" by (metis append_take_drop_id)
  then show "prefix p s" by (metis prefixI)
next
  assume "prefix p s"
  then show "take (length p) s = p" by (auto simp: prefix_def)
qed

lemma str_contains_sublist: "str_contains p s \<longleftrightarrow> sublist p s"
proof (induction s)
  case Nil
  show ?case by simp
next
  case (Cons c cs)
  show ?case
    by (simp add: Cons.IH startswith_prefix sublist_Cons_right)
qed

lemma is_reasoning_compatible_model_prefix:
  "is_reasoning_compatible_model model_name \<longleftrightarrow> prefix ''gpt-5'' model_name"
  by (auto simp: is_reasoning_compatible_model_def startswith_prefix)

lemma reasoning_kwarg_iff:
  "reasoning_kwarg s \<noteq> None \<longleftrightarrow>
     prefix ''gpt-5'' (model s)
     \<and> reasoning_effort s \<in> {Some ''low'', Some ''medium'', Some ''high''}"
  unfolding reasoning_kwarg_def is_reasoning_compatible_model_prefix by auto

lemma reasoning_kwarg_value:
  "reasoning_kwarg s \<noteq> None \<Longrightarrow> reasoning_kwarg s = reasoning_effort s"
  unfolding reasoning_kwarg_def by (auto split: if_splits)

lemma requests_shape:
  "requests (send_message_to_OpenAI_API api w s prompt history) = [first_request s prompt history]
   \<or> requests (send_message_to_OpenAI_API api w s prompt history) =
        [first_request s prompt history,
         retry_request (s\<lparr>previous_response_id := None\<rparr>) prompt history]"
  by (simp add: send_message_to_OpenAI_API_def Let_def split: prod.splits sum.splits)

lemma req_reasoning_simps:
  "req_reasoning (first_request s prompt history) = reasoning_kwarg s"
  "req_reasoning (retry_request (s\<lparr>previous_response_id := None\<rparr>) prompt history) = reasoning_kwarg s"
proof -
  have "reasoning_kwarg (s\<lparr>previous_response_id := None\<rparr>) = reasoning_kwarg s"
    unfolding reasoning_kwarg_def by auto
  then show "req_reasoning (retry_request (s\<lparr>previous_response_id := None\<rparr>) prompt history)
      = reasoning_kwarg s"
    by (simp add: retry_request_def)
  show "req_reasoning (first_request s prompt history) = reasoning_kwarg s"
    by (simp add: first_request_def)
qed

text \<open>
  C5. Every request of a call to \<open>send_message_to_OpenAI_API\<close> (there is at least one)
  carries a reasoning effort if and only if the model name starts with \<open>gpt-5\<close> and the
  session's \<open>reasoning_effort\<close> is one of \<open>low\<close>, \<open>medium\<close>, \<open>high\<close>; the effort sent
  is then the session's, and otherwise the request has no reasoning parameter.
\<close>

theorem reasoning_gated_by_model:
  "requests (send_message_to_OpenAI_API api w s prompt history) \<noteq> []
   \<and> (\<forall>q \<in> set (requests (send_message_to_OpenAI_API api w s prompt history)).
        (req_reasoning q \<noteq> None \<longleftrightarrow>
           prefix ''gpt-5'' (model s)
           \<and> reasoning_effort s \<in> {Some ''low'', Some ''medium'', Some ''high''})
        \<and> (req_reasoning q \<noteq> None \<longrightarrow> req_reasoning q = reasoning_effort s))"
proof -
  let ?rs = "requests (send_message_to_OpenAI_API api w s prompt history)"
  have "\<forall>q \<in> set ?rs. req_reasoning q = reasoning_kwarg s"
    using requests_shape [of api w s prompt history]
    by (auto simp: req_reasoning_simps)
  moreover have "?rs \<noteq> []"
    using requests_shape [of api w s prompt history] by auto
  ultimately show ?thesis
    using reasoning_kwarg_iff [of s] reasoning_kwarg_value [of s] by auto
qed

theorem reasoning_gated_by_model_witness:
  "map req_reasoning (requests (send_message_to_OpenAI_API scripted_api
      [Inl ''Error code: 400 - previous_response_not_found'',
       Inr (text_response (Some ''resp_2'') ''Sure.'')]
      \<lparr> api_key = ''sk-test'', model = ''gpt-5-mini'', reasoning_effort = Some ''high'',
        previous_response_id = Some ''resp_1'', token_count = 0 \<rparr>
      ''Go on'' None)) = [Some ''high'', Some ''high'']
   \<and> prefix ''gpt-5'' ''gpt-5-mini''
   \<and> map req_reasoning (requests (send_message_to_OpenAI_API scripted_api
      [Inr (text_response (Some ''resp_2'') ''Sure.'')]
      \<lparr> api_key = ''sk-test'', model = ''gpt-4o'', reasoning_effort = Some ''high'',
        previous_response_id = None, token_count = 0 \<rparr>
      ''Go on'' None)) = [None]"
proof -
  let ?s = "\<lparr> api_key = ''sk-test'', model = ''gpt-5-mini'', reasoning_effort = Some ''high'',
        previous_response_id = Some ''resp_1'', token_count = 0 \<rparr>"
  let ?w = "[Inl ''Error code: 400 - previous_response_not_found'',
       Inr (text_response (Some ''resp_2'') ''Sure.'')]"
  let ?s' = "\<lparr> api_key = ''sk-test'', model = ''gpt-4o'', reasoning_effort = Some ''high'',
        previous_response_id = None, token_count = 0 \<rparr>"
  let ?w' = "[Inr (text_response (Some ''resp_2'') ''Sure.'')]"
  let ?rs = "requests (send_message_to_OpenAI_API scripted_api ?w ?s ''Go on'' None)"
  let ?rs' = "requests (send_message_to_OpenAI_API scripted_api ?w' ?s' ''Go on'' None)"
  obtain q1 q2 where two: "?rs = [q1, q2]"
    by (simp add: eval_defs)
  obtain q where one: "?rs' = [q]"
    by (simp add: eval_defs)
  have p: "prefix ''gpt-5'' ''gpt-5-mini''" "\<not> prefix ''gpt-5'' ''gpt-4o''"
    by simp_all
  have "\<forall>q \<in> set ?rs. req_reasoning q = Some ''high''"
    using reasoning_gated_by_model [of scripted_api ?w ?s "''Go on''" None] p by auto
  then have first: "map req_reasoning ?rs = [Some ''high'', Some ''high'']"
    using two by simp
  have "\<forall>q \<in> set ?rs'. req_reasoning q = None"
    using reasoning_gated_by_model [of scripted_api ?w' ?s' "''Go on''" None] p by auto
  then have second: "map req_reasoning ?rs' = [None]"
    using one by simp
  from first second p show ?thesis by simp
qed

section \<open>Credential and model of a conversation\<close>

lemma set_reasoning_effort_frame:
  "api_key (OpenAI_chat_session (set_reasoning_effort c effort)) = api_key (OpenAI_chat_session c)"
  "model (OpenAI_chat_session (set_reasoning_effort c effort)) = model (OpenAI_chat_session c)"
  "chat_history (set_reasoning_effort c effort) = chat_history c"
  by (simp_all add: set_reasoning_effort_def)

lemma reachable_credential:
  "reachable api tk key m c \<Longrightarrow>
     api_key (OpenAI_chat_session c) = key \<and> model (OpenAI_chat_session c) = m"
proof (induction rule: reachable.induct)
  case (created nm)
  show ?case by (simp add: Conversation_init_def OpenAIChatSession_init_def)
next
  case (sent c w prompt)
  then show ?case by (simp add: send_message_session)
next
  case (effort_set c effort)
  then show ?case by (simp add: set_reasoning_effort_frame)
qed

text \<open>
  C7. \<open>api_key\<close> and \<open>model\<close> are set by the constructor and left unchanged by
  \<open>send_message_to_OpenAI_API\<close>, \<open>update_token_count\<close> and \<open>Conversation.send_message\<close>;
  in every state a conversation can reach, \<open>get_api_key\<close> and \<open>get_model_name\<close> return the
  values it was created with.
\<close>

theorem credential_and_model_fixed:
  "api_key (OpenAIChatSession_init key m) = key
   \<and> model (OpenAIChatSession_init key m) = m
   \<and> api_key (session_after (send_message_to_OpenAI_API api w s prompt history)) = api_key s
   \<and> model (session_after (send_message_to_OpenAI_API api w s prompt history)) = model s
   \<and> api_key (update_token_count tk s history) = api_key s
   \<and> model (update_token_count tk s history) = model s
   \<and> get_api_key (conversation_after (send_message api tk w c prompt)) = get_api_key c
   \<and> get_model_name (conversation_after (send_message api tk w c prompt)) = get_model_name c
   \<and> (reachable api tk key m c \<longrightarrow> get_api_key c = key \<and> get_model_name c = m)"
  using reachable_credential [of api tk key m c]
  by (simp add: send_frame update_token_count_frame send_message_session
        get_api_key_def get_model_name_def OpenAIChatSession_init_def)

theorem credential_and_model_fixed_witness:
  "reachable scripted_api char_tokenizer ''sk-test'' ''gpt-4o''
     (conversation_after (send_message scripted_api char_tokenizer
        [Inr (text_response (Some ''resp_1'') ''Hello!'')]
        (Conversation_init ''sk-test'' ''Chat 1'' ''gpt-4o'') ''Hi''))
   \<and> get_api_key (conversation_after (send_message scripted_api char_tokenizer
        [Inr (text_response (Some ''resp_1'') ''Hello!'')]
        (Conversation_init ''sk-test'' ''Chat 1'' ''gpt-4o'') ''Hi'')) = ''sk-test''
   \<and> get_model_name (conversation_after (send_message scripted_api char_tokenizer
        [Inr (text_response (Some ''resp_1'') ''Hello!'')]
        (Conversation_init ''sk-test'' ''Chat 1'' ''gpt-4o'') ''Hi'')) = ''gpt-4o''"
proof -
  let ?c = "conversation_after (send_message scripted_api char_tokenizer
        [Inr (text_response (Some ''resp_1'') ''Hello!'')]
        (Conversation_init ''sk-test'' ''Chat 1'' ''gpt-4o'') ''Hi'')"
  have r: "reachable scripted_api char_tokenizer ''sk-test'' ''gpt-4o'' ?c"
    by (intro reachable.sent reachable.created)
  from r credential_and_model_fixed
         [where key = "''sk-test''" and m = "''gpt-4o''" and api = scripted_api
            and tk = char_tokenizer and c = ?c]
  show ?thesis by simp
qed

section \<open>What a request carries\<close>

lemma requests_nonempty: "requests (send_message_to_OpenAI_API api w s prompt history) \<noteq> []"
  using requests_shape [of api w s prompt history] by auto

lemma hd_requests:
  "hd (requests (send_message_to_OpenAI_API api w s prompt history)) = first_request s prompt history"
  using requests_shape [of api w s prompt history] by auto

lemma tl_requests:
  "q \<in> set (tl (requests (send_message_to_OpenAI_API api w s prompt history))) \<Longrightarrow>
     q = retry_request (s\<lparr>previous_response_id := None\<rparr>) prompt history"
  using requests_shape [of api w s prompt history] by auto

lemma first_request_input:
  "req_input (first_request s prompt history) =
     (if (previous_response_id s = None \<or> previous_response_id s = Some [])
         \<and> history \<noteq> None \<and> history \<noteq> Some []
      then map history_message (the history) @ [InputMessage (PStr ''user'') (PStr prompt)]
      else [InputMessage (PStr ''user'') (PStr prompt)])"
  by (auto simp: first_request_def id_truthy_def history_truthy_def full_payload_def
        history_or_empty_def user_message_def split: option.splits)

lemma first_request_previous:
  "req_previous_response_id (first_request s prompt history) =
     (if previous_response_id s = Some [] then None else previous_response_id s)"
  by (auto simp: first_request_def id_truthy_def split: option.splits)

lemma retry_request_input:
  "req_input (retry_request s1 prompt history) =
     map history_message (history_or_empty history) @ [InputMessage (PStr ''user'') (PStr prompt)]"
  by (auto simp: retry_request_def history_truthy_def full_payload_def
        history_or_empty_def user_message_def split: option.splits)

lemma retry_request_previous:
  "req_previous_response_id (retry_request s1 prompt history) = None"
  by (simp add: retry_request_def)

lemma history_message_record:
  "history_message (PDict [(''role'', PStr role), (''message_text'', PStr text)]) =
     InputMessage (PStr (if role = ''model'' then ''assistant'' else role)) (PStr text)"
  by (simp add: history_message_def dict_get_def)

text \<open>
  C2, as the code has it. The first request of a call carries only the new user prompt
  when \<open>previous_response_id\<close> is set to a non-empty id, which is then passed in the
  request, or when the supplied history is empty. When no non-empty id is set and the
  history is not empty, the first request carries the whole history followed by the
  prompt, and so does the retry after a lost thread.
\<close>

theorem first_request_payload:
  "requests (send_message_to_OpenAI_API api w s prompt history) \<noteq> []
   \<and> ((\<exists>i. previous_response_id s = Some i \<and> i \<noteq> []) \<or> history = None \<or> history = Some [] \<longrightarrow>
        req_input (hd (requests (send_message_to_OpenAI_API api w s prompt history))) =
          [InputMessage (PStr ''user'') (PStr prompt)])
   \<and> (\<forall>i. previous_response_id s = Some i \<and> i \<noteq> [] \<longrightarrow>
        req_previous_response_id (hd (requests (send_message_to_OpenAI_API api w s prompt history)))
          = Some i)
   \<and> (\<forall>h. (previous_response_id s = None \<or> previous_response_id s = Some [])
            \<and> history = Some h \<and> h \<noteq> [] \<longrightarrow>
        req_input (hd (requests (send_message_to_OpenAI_API api w s prompt history))) =
          map history_message h @ [InputMessage (PStr ''user'') (PStr prompt)])
   \<and> (\<forall>q \<in> set (tl (requests (send_message_to_OpenAI_API api w s prompt history))).
        req_input q =
          map history_message (history_or_empty history) @ [InputMessage (PStr ''user'') (PStr prompt)])"
proof -
  have "\<forall>q \<in> set (tl (requests (send_message_to_OpenAI_API api w s prompt history))).
        req_input q =
          map history_message (history_or_empty history) @ [InputMessage (PStr ''user'') (PStr prompt)]"
    by (auto dest: tl_requests simp: retry_request_input)
  then show ?thesis
    by (auto simp: requests_nonempty hd_requests first_request_input first_request_previous)
qed

theorem first_request_payload_witness:
  "map req_input (requests (send_message_to_OpenAI_API scripted_api
      [Inr (text_response (Some ''resp_2'') ''Sure.'')]
      \<lparr> api_key = ''sk-test'', model = ''gpt-4o'', reasoning_effort = None,
        previous_response_id = Some ''resp_1'', token_count = 8 \<rparr>
      ''Go on''
      (Some [history_record ''user'' ''Hi'', history_record ''model'' ''Hello!''])))
     = [[InputMessage (PStr ''user'') (PStr ''Go on'')]]
   \<and> map req_previous_response_id (requests (send_message_to_OpenAI_API scripted_api
      [Inr (text_response (Some ''resp_2'') ''Sure.'')]
      \<lparr> api_key = ''sk-test'', model = ''gpt-4o'', reasoning_effort = None,
        previous_response_id = Some ''resp_1'', token_count = 8 \<rparr>
      ''Go on''
      (Some [history_record ''user'' ''Hi'', history_record ''model'' ''Hello!''])))
     = [Some ''resp_1'']"
proof -
  let ?s = "\<lparr> api_key = ''sk-test'', model = ''gpt-4o'', reasoning_effort = None,
        previous_response_id = Some ''resp_1'', token_count = 8 \<rparr>"
  let ?h = "Some [history_record ''user'' ''Hi'', history_record ''model'' ''Hello!'']"
  let ?rs = "requests (send_message_to_OpenAI_API scripted_api
      [Inr (text_response (Some ''resp_2'') ''Sure.'')] ?s ''Go on'' ?h)"
  obtain q where one: "?rs = [q]"
    by (simp add: eval_defs)
  have set: "previous_response_id ?s = Some ''resp_1''" "''resp_1'' \<noteq> []"
    by simp_all
  from first_request_payload
         [of scripted_api "[Inr (text_response (Some ''resp_2'') ''Sure.'')]" ?s "''Go on''" ?h]
       set one
  show ?thesis by simp
qed

text \<open>
  C2 as stated fails. In the first run the service has lost the thread \<open>resp_1\<close>, and the
  retry sends the two stored records again. In the second run the first reply came
  without an id, and the next request sends the stored records itself.
\<close>

theorem history_resent_without_thread_counterexample:
  "map req_input (requests_made (send_message scripted_api char_tokenizer
      [Inl ''Error code: 400 - previous_response_not_found'',
       Inr (text_response (Some ''resp_2'') ''Sure.'')]
      (conversation_after (send_message scripted_api char_tokenizer
         [Inr (text_response (Some ''resp_1'') ''Hello!'')]
         (Conversation_init ''sk-test'' ''Chat 1'' ''gpt-4o'') ''Hi''))
      ''Go on''))
     = [[InputMessage (PStr ''user'') (PStr ''Go on'')],
        [InputMessage (PStr ''user'') (PStr ''Hi''),
         InputMessage (PStr ''assistant'') (PStr ''Hello!''),
         InputMessage (PStr ''user'') (PStr ''Go on'')]]
   \<and> map req_input (requests_made (send_message scripted_api char_tokenizer
      [Inr (text_response (Some ''resp_2'') ''Sure.'')]
      (conversation_after (send_message scripted_api char_tokenizer
         [Inr (text_response None ''Hello!'')]
         (Conversation_init ''sk-test'' ''Chat 1'' ''gpt-4o'') ''Hi''))
      ''Go on''))
     = [[InputMessage (PStr ''user'') (PStr ''Hi''),
         InputMessage (PStr ''assistant'') (PStr ''Hello!''),
         InputMessage (PStr ''user'') (PStr ''Go on'')]]"
  by (simp add: eval_defs)

section \<open>Threading by response id\<close>

lemma send_first_response:
  "api w (first_request s prompt history) = (Inr resp, w1) \<Longrightarrow>
     send_message_to_OpenAI_API api w s prompt history =
       \<lparr> reply = extract_reply_text resp,
         session_after = s\<lparr>previous_response_id := response_id resp\<rparr>,
         world_after = w1,
         requests = [first_request s prompt history] \<rparr>"
  by (simp add: send_message_to_OpenAI_API_def)

lemma send_other_error:
  "api w (first_request s prompt history) = (Inl err_text, w1) \<Longrightarrow>
   \<not> lost_thread_error err_text \<Longrightarrow>
     send_message_to_OpenAI_API api w s prompt history =
       \<lparr> reply = None, session_after = s, world_after = w1,
         requests = [first_request s prompt history] \<rparr>"
  by (simp add: send_message_to_OpenAI_API_def)

lemma send_retry_response:
  "api w (first_request s prompt history) = (Inl err_text, w1) \<Longrightarrow>
   lost_thread_error err_text \<Longrightarrow>
   api w1 (retry_request (s\<lparr>previous_response_id := None\<rparr>) prompt history) = (Inr resp, w2) \<Longrightarrow>
     send_message_to_OpenAI_API api w s prompt history =
       \<lparr> reply = extract_reply_text resp,
         session_after = s\<lparr>previous_response_id := response_id resp\<rparr>,
         world_after = w2,
         requests = [first_request s prompt history,
                     retry_request (s\<lparr>previous_response_id := None\<rparr>) prompt history] \<rparr>"
  by (simp add: send_message_to_OpenAI_API_def Let_def)

lemma send_retry_error:
  "api w (first_request s prompt history) = (Inl err_text, w1) \<Longrightarrow>
   lost_thread_error err_text \<Longrightarrow>
   api w1 (retry_request (s\<lparr>previous_response_id := None\<rparr>) prompt history) = (Inl e2, w2) \<Longrightarrow>
     send_message_to_OpenAI_API api w s prompt history =
       \<lparr> reply = None,
         session_after = s\<lparr>previous_response_id := None\<rparr>,
         world_after = w2,
         requests = [first_request s prompt history,
                     retry_request (s\<lparr>previous_response_id := None\<rparr>) prompt history] \<rparr>"
  by (simp add: send_message_to_OpenAI_API_def Let_def)

lemma lost_thread_error_sublist:
  "lost_thread_error err_text \<longleftrightarrow>
     sublist ''previous_response_not_found'' err_text \<or> sublist ''Previous response'' err_text"
  by (simp add: lost_thread_error_def str_contains_sublist)

text \<open>
  C4, as the code has it. When the first request is answered, \<open>previous_response_id\<close>
  becomes the id of that response; when the first request fails and the retry is
  answered, it becomes the id of the retry's response. The first request passes
  \<open>previous_response_id\<close> when it is set to a non-empty id and leaves the parameter out
  when it is \<open>None\<close> or the empty string; the retry never passes one.
\<close>

theorem previous_response_id_threading:
  "(api w (hd (requests (send_message_to_OpenAI_API api w s prompt history))) = (Inr resp, w1) \<longrightarrow>
      previous_response_id (session_after (send_message_to_OpenAI_API api w s prompt history))
        = response_id resp)
   \<and> (api w (hd (requests (send_message_to_OpenAI_API api w s prompt history))) = (Inl err, w1)
       \<and> length (requests (send_message_to_OpenAI_API api w s prompt history)) = 2
       \<and> api w1 (requests (send_message_to_OpenAI_API api w s prompt history) ! 1) = (Inr resp2, w2) \<longrightarrow>
      previous_response_id (session_after (send_message_to_OpenAI_API api w s prompt history))
        = response_id resp2)
   \<and> (\<forall>i. previous_response_id s = Some i \<and> i \<noteq> [] \<longrightarrow>
        req_previous_response_id (hd (requests (send_message_to_OpenAI_API api w s prompt history)))
          = Some i)
   \<and> (previous_response_id s = None \<or> previous_response_id s = Some [] \<longrightarrow>
        req_previous_response_id (hd (requests (send_message_to_OpenAI_API api w s prompt history)))
          = None)
   \<and> (\<forall>q \<in> set (tl (requests (send_message_to_OpenAI_API api w s prompt history))).
        req_previous_response_id q = None)"
proof -
  let ?r = "send_message_to_OpenAI_API api w s prompt history"
  have a: "previous_response_id (session_after ?r) = response_id resp"
    if "api w (hd (requests ?r)) = (Inr resp, w1)"
    using that by (simp add: hd_requests send_first_response)
  have b: "previous_response_id (session_after ?r) = response_id resp2"
    if first: "api w (hd (requests ?r)) = (Inl err, w1)"
      and two: "length (requests ?r) = 2"
      and second: "api w1 (requests ?r ! 1) = (Inr resp2, w2)"
  proof -
    from first have f: "api w (first_request s prompt history) = (Inl err, w1)"
      by (simp add: hd_requests)
    have lost: "lost_thread_error err"
    proof (rule ccontr)
      assume "\<not> lost_thread_error err"
      with f two show False by (simp add: send_other_error)
    qed
    obtain o2 w2' where o2:
      "api w1 (retry_request (s\<lparr>previous_response_id := None\<rparr>) prompt history) = (o2, w2')"
      by (cases "api w1 (retry_request (s\<lparr>previous_response_id := None\<rparr>) prompt history)")
    have "requests ?r ! 1 = retry_request (s\<lparr>previous_response_id := None\<rparr>) prompt history"
      using f lost o2 by (cases o2) (simp_all add: send_retry_response send_retry_error)
    with second
    have "api w1 (retry_request (s\<lparr>previous_response_id := None\<rparr>) prompt history) = (Inr resp2, w2)"
      by simp
    with f lost show ?thesis by (simp add: send_retry_response)
  qed
  have c: "\<forall>q \<in> set (tl (requests ?r)). req_previous_response_id q = None"
    by (auto dest: tl_requests simp: retry_request_previous)
  from a b c show ?thesis
    by (auto simp: hd_requests first_request_previous)
qed

theorem previous_response_id_threading_witness:
  "previous_response_id (session_after (send_message_to_OpenAI_API scripted_api
      [Inl ''Previous response with id resp_1 not found.'',
       Inr (text_response (Some ''resp_2'') ''Sure.'')]
      \<lparr> api_key = ''sk-test'', model = ''gpt-4o'', reasoning_effort = None,
        previous_response_id = Some ''resp_1'', token_count = 8 \<rparr>
      ''Go on'' None)) = Some ''resp_2''
   \<and> map req_previous_response_id (requests (send_message_to_OpenAI_API scripted_api
      [Inl ''Previous response with id resp_1 not found.'',
       Inr (text_response (Some ''resp_2'') ''Sure.'')]
      \<lparr> api_key = ''sk-test'', model = ''gpt-4o'', reasoning_effort = None,
        previous_response_id = Some ''resp_1'', token_count = 8 \<rparr>
      ''Go on'' None)) = [Some ''resp_1'', None]"
proof -
  let ?s = "\<lparr> api_key = ''sk-test'', model = ''gpt-4o'', reasoning_effort = None,
        previous_response_id = Some ''resp_1'', token_count = 8 \<rparr>"
  let ?w = "[Inl ''Previous response with id resp_1 not found.'',
       Inr (text_response (Some ''resp_2'') ''Sure.'')]"
  let ?r = "send_message_to_OpenAI_API scripted_api ?w ?s ''Go on'' None"
  obtain q1 q2 where two: "requests ?r = [q1, q2]"
    by (simp add: eval_defs)
  have first: "scripted_api ?w (hd (requests ?r))
      = (Inl ''Previous response with id resp_1 not found.'',
         [Inr (text_response (Some ''resp_2'') ''Sure.'')])"
    by (simp add: scripted_api_def)
  have second: "scripted_api [Inr (text_response (Some ''resp_2'') ''Sure.'')] (requests ?r ! 1)
      = (Inr (text_response (Some ''resp_2'') ''Sure.''), [])"
    by (simp add: scripted_api_def)
  have len: "length (requests ?r) = 2"
    using two by simp
  have set: "previous_response_id ?s = Some ''resp_1''" "''resp_1'' \<noteq> []"
    by simp_all
  from previous_response_id_threading
         [where api = scripted_api and w = ?w and s = ?s and prompt = "''Go on''"
            and history = None
            and err = "''Previous response with id resp_1 not found.''"
            and ?w1.0 = "[Inr (text_response (Some ''resp_2'') ''Sure.'')]"
            and ?resp2.0 = "text_response (Some ''resp_2'') ''Sure.''" and ?w2.0 = "[]"]
       first second len set two
  show ?thesis by (simp add: text_response_def)
qed

text \<open>
  C4 as stated fails where the id is set but empty: the first response carries the id
  \<open>""\<close>, the session stores it, and the next request has no \<open>previous_response_id\<close>
  parameter although the stored id is not \<open>None\<close>.
\<close>

theorem empty_response_id_not_sent_counterexample:
  "previous_response_id (session_after (send_message_to_OpenAI_API scripted_api
      [Inr (text_response (Some '''') ''Hello!'')]
      (OpenAIChatSession_init ''sk-test'' ''gpt-4o'') ''Hi'' (Some []))) = Some ''''
   \<and> map req_previous_response_id (requests (send_message_to_OpenAI_API scripted_api
      [Inr (text_response (Some ''resp_2'') ''Sure.'')]
      (session_after (send_message_to_OpenAI_API scripted_api
         [Inr (text_response (Some '''') ''Hello!'')]
         (OpenAIChatSession_init ''sk-test'' ''gpt-4o'') ''Hi'' (Some [])))
      ''Go on''
      (Some [history_record ''user'' ''Hi'', history_record ''model'' ''Hello!''])))
     = [None]"
  by (simp add: eval_defs)

section \<open>Recovery from a lost thread\<close>

text \<open>
  C8. When the first request raises an error whose text contains
  \<open>previous_response_not_found\<close> or \<open>Previous response\<close>, exactly one retry request
  follows it. The retry has no \<open>previous_response_id\<close>, and its input is the supplied
  history, a record with role \<open>model\<close> sent as \<open>assistant\<close>, followed by the new prompt.
  If the retry fails as well, the call returns \<open>None\<close> and leaves \<open>previous_response_id\<close>
  reset to \<open>None\<close>; if it is answered, the call returns the reply text and stores the new
  response id.
\<close>

theorem lost_thread_recovery:
  assumes first: "api w (first_request s prompt history) = (Inl err, w1)"
    and lost: "sublist ''previous_response_not_found'' err \<or> sublist ''Previous response'' err"
  shows "\<exists>q. requests (send_message_to_OpenAI_API api w s prompt history)
               = [first_request s prompt history, q]
           \<and> req_previous_response_id q = None
           \<and> req_model q = model s
           \<and> req_input q =
               map history_message (history_or_empty history)
                 @ [InputMessage (PStr ''user'') (PStr prompt)]
           \<and> (\<forall>role text. history_message
                   (PDict [(''role'', PStr role), (''message_text'', PStr text)])
                 = InputMessage (PStr (if role = ''model'' then ''assistant'' else role))
                     (PStr text))
           \<and> (\<forall>e2 w2. api w1 q = (Inl e2, w2) \<longrightarrow>
                 reply (send_message_to_OpenAI_API api w s prompt history) = None
                 \<and> previous_response_id
                      (session_after (send_message_to_OpenAI_API api w s prompt history)) = None)
           \<and> (\<forall>resp w2. api w1 q = (Inr resp, w2) \<longrightarrow>
                 reply (send_message_to_OpenAI_API api w s prompt history) = extract_reply_text resp
                 \<and> previous_response_id
                      (session_after (send_message_to_OpenAI_API api w s prompt history))
                    = response_id resp)"
proof -
  let ?q = "retry_request (s\<lparr>previous_response_id := None\<rparr>) prompt history"
  let ?r = "send_message_to_OpenAI_API api w s prompt history"
  from lost have l: "lost_thread_error err"
    by (simp add: lost_thread_error_sublist)
  obtain o2 w2 where second: "api w1 ?q = (o2, w2)"
    by (cases "api w1 ?q")
  have reqs: "requests ?r = [first_request s prompt history, ?q]"
    using first l second by (cases o2) (simp_all add: send_retry_response send_retry_error)
  have failing: "reply ?r = None \<and> previous_response_id (session_after ?r) = None"
    if "api w1 ?q = (Inl e2, w2')" for e2 w2'
    using first l that by (simp add: send_retry_error)
  have answered: "reply ?r = extract_reply_text resp
      \<and> previous_response_id (session_after ?r) = response_id resp"
    if "api w1 ?q = (Inr resp, w2')" for resp w2'
    using first l that by (simp add: send_retry_response)
  have shape: "req_previous_response_id ?q = None" "req_model ?q = model s"
    by (simp_all add: retry_request_def)
  show ?thesis
    using reqs failing answered shape
    by (intro exI [of _ ?q]) (simp add: retry_request_input history_message_record)
qed

theorem lost_thread_recovery_witness:
  "requests (send_message_to_OpenAI_API scripted_api
      [Inl ''Error code: 400 - previous_response_not_found'', Inl ''Connection error.'']
      \<lparr> api_key = ''sk-test'', model = ''gpt-4o'', reasoning_effort = None,
        previous_response_id = Some ''resp_1'', token_count = 8 \<rparr>
      ''Go on''
      (Some [history_record ''user'' ''Hi'', history_record ''model'' ''Hello!'']))
    = [\<lparr> req_model = ''gpt-4o'',
         req_input = [InputMessage (PStr ''user'') (PStr ''Go on'')],
         req_store = True,
         req_previous_response_id = Some ''resp_1'',
         req_reasoning = None \<rparr>,
       \<lparr> req_model = ''gpt-4o'',
         req_input = [InputMessage (PStr ''user'') (PStr ''Hi''),
                      InputMessage (PStr ''assistant'') (PStr ''Hello!''),
                      InputMessage (PStr ''user'') (PStr ''Go on'')],
         req_store = True,
         req_previous_response_id = None,
         req_reasoning = None \<rparr>]
   \<and> reply (send_message_to_OpenAI_API scripted_api
      [Inl ''Error code: 400 - previous_response_not_found'', Inl ''Connection error.'']
      \<lparr> api_key = ''sk-test'', model = ''gpt-4o'', reasoning_effort = None,
        previous_response_id = Some ''resp_1'', token_count = 8 \<rparr>
      ''Go on''
      (Some [history_record ''user'' ''Hi'', history_record ''model'' ''Hello!''])) = None
   \<and> previous_response_id (session_after (send_message_to_OpenAI_API scripted_api
      [Inl ''Error code: 400 - previous_response_not_found'', Inl ''Connection error.'']
      \<lparr> api_key = ''sk-test'', model = ''gpt-4o'', reasoning_effort = None,
        previous_response_id = Some ''resp_1'', token_count = 8 \<rparr>
      ''Go on''
      (Some [history_record ''user'' ''Hi'', history_record ''model'' ''Hello!'']))) = None"
proof -
  let ?s = "\<lparr> api_key = ''sk-test'', model = ''gpt-4o'', reasoning_effort = None,
        previous_response_id = Some ''resp_1'', token_count = 8 \<rparr>"
  let ?w = "[Inl ''Error code: 400 - previous_response_not_found'', Inl ''Connection error.'']"
  let ?h = "Some [history_record ''user'' ''Hi'', history_record ''model'' ''Hello!'']"
  let ?r = "send_message_to_OpenAI_API scripted_api ?w ?s ''Go on'' ?h"
  have first: "scripted_api ?w (first_request ?s ''Go on'' ?h)
      = (Inl ''Error code: 400 - previous_response_not_found'', [Inl ''Connection error.''])"
    by (simp add: scripted_api_def)
  have "str_contains ''previous_response_not_found''
          ''Error code: 400 - previous_response_not_found''"
    by (simp add: startswith_def)
  then have lost: "sublist ''previous_response_not_found''
          ''Error code: 400 - previous_response_not_found''
        \<or> sublist ''Previous response'' ''Error code: 400 - previous_response_not_found''"
    by (simp add: str_contains_sublist)
  from lost_thread_recovery
         [where api = scripted_api and w = ?w and s = ?s and prompt = "''Go on''"
            and history = ?h, OF first lost]
  obtain q where q: "requests ?r = [first_request ?s ''Go on'' ?h, q]"
      "req_previous_response_id q = None" "req_model q = model ?s"
      "req_input q = map history_message (history_or_empty ?h)
                       @ [InputMessage (PStr ''user'') (PStr ''Go on'')]"
      "\<forall>e2 w2. scripted_api [Inl ''Connection error.''] q = (Inl e2, w2) \<longrightarrow>
         reply ?r = None \<and> previous_response_id (session_after ?r) = None"
    by blast
  have "scripted_api [Inl ''Connection error.''] q = (Inl ''Connection error.'', [])"
    by (simp add: scripted_api_def)
  with q(5) have failed: "reply ?r = None" "previous_response_id (session_after ?r) = None"
    by blast+
  have "requests ?r = [first_request ?s ''Go on'' ?h,
                       retry_request (?s\<lparr>previous_response_id := None\<rparr>) ''Go on'' ?h]"
    using requests_shape [of scripted_api ?w ?s "''Go on''" ?h] q(1) by auto
  then have "requests ?r = [\<lparr> req_model = ''gpt-4o'',
         req_input = [InputMessage (PStr ''user'') (PStr ''Go on'')],
         req_store = True,
         req_previous_response_id = Some ''resp_1'',
         req_reasoning = None \<rparr>,
       \<lparr> req_model = ''gpt-4o'',
         req_input = [InputMessage (PStr ''user'') (PStr ''Hi''),
                      InputMessage (PStr ''assistant'') (PStr ''Hello!''),
                      InputMessage (PStr ''user'') (PStr ''Go on'')],
         req_store = True,
         req_previous_response_id = None,
         req_reasoning = None \<rparr>]"
    by (simp add: eval_defs)
  with failed show ?thesis by simp
qed

section \<open>Token accounting\<close>

lemma sum_tokens_all_encoded:
  "(\<And>m. m \<in> set h \<Longrightarrow> encode tk enc (message_text_of m) = Some (toks m)) \<Longrightarrow>
     sum_tokens tk enc acc h = Some (acc + (\<Sum>m\<leftarrow>h. int (length (toks m))))"
proof (induction h arbitrary: acc)
  case Nil
  show ?case by simp
next
  case (Cons m ms)
  have here: "encode tk enc (message_text_of m) = Some (toks m)"
    using Cons.prems by simp
  have rest: "sum_tokens tk enc (acc + int (length (toks m))) ms
      = Some (acc + int (length (toks m)) + (\<Sum>m\<leftarrow>ms. int (length (toks m))))"
    using Cons.prems by (intro Cons.IH) simp
  from here rest show ?case by simp
qed

lemma sum_tokens_some_raises:
  "m \<in> set h \<Longrightarrow> encode tk enc (message_text_of m) = None \<Longrightarrow> sum_tokens tk enc acc h = None"
  by (induction h arbitrary: acc) (auto split: option.splits)

lemma update_token_count_keeps_on_failure:
  "get_encoding_for_model tk (model s) = None
   \<or> (\<exists>enc m. get_encoding_for_model tk (model s) = Some enc \<and> m \<in> set (history_or_empty history)
         \<and> encode tk enc (message_text_of m) = None) \<Longrightarrow>
     update_token_count tk s history = s"
  by (auto simp: update_token_count_def sum_tokens_some_raises)

lemma message_text_of_cases:
  "message_text_of PNone = PStr ''''"
  "message_text_of (PStr t) = PStr ''''"
  "message_text_of (PInt i) = PStr ''''"
  "message_text_of (PDict kvs) =
     (case map_of kvs ''message_text'' of Some v \<Rightarrow> v | None \<Rightarrow> PStr '''')"
  by (simp_all add: message_text_of_def dict_get_def)

lemma update_token_count_all_encoded:
  assumes selected: "get_encoding_for_model tk (model s) = Some enc"
    and encoded: "\<And>m. m \<in> set (history_or_empty history) \<Longrightarrow>
                    encode tk enc (message_text_of m) = Some (toks m)"
  shows "token_count (update_token_count tk s history)
           = (\<Sum>m\<leftarrow>history_or_empty history. int (length (toks m)))"
proof -
  have "sum_tokens tk enc 0 (history_or_empty history)
          = Some (0 + (\<Sum>m\<leftarrow>history_or_empty history. int (length (toks m))))"
    using encoded by (rule sum_tokens_all_encoded)
  with selected show ?thesis
    by (simp add: update_token_count_def)
qed

lemma message_text_of_not_dict:
  "\<forall>kvs. m \<noteq> PDict kvs \<Longrightarrow> message_text_of m = PStr ''''"
  by (cases m) (simp_all add: message_text_of_cases)

text \<open>
  C3, as the code has it. When an encoding is selected for the session's model and
  every record's text is encoded by it, \<open>update_token_count\<close> sets \<open>token_count\<close> to the
  sum, over the records of the history, of the number of tokens of the record's
  \<open>message_text\<close>. When no encoding can be selected, or the encoding of some record's
  text raises, the session is left as it was, so \<open>token_count\<close> keeps its previous
  value. A record that is not a dict counts as the empty string, and so does a dict
  without that key.
\<close>

theorem update_token_count_sum_or_kept:
  "(get_encoding_for_model tk (model s) = Some enc
      \<and> (\<forall>m \<in> set (history_or_empty history).
            encode tk enc (message_text_of m) = Some (toks m)) \<longrightarrow>
      token_count (update_token_count tk s history)
        = (\<Sum>m\<leftarrow>history_or_empty history. int (length (toks m))))
   \<and> (get_encoding_for_model tk (model s) = None \<longrightarrow>
        update_token_count tk s history = s)
   \<and> (get_encoding_for_model tk (model s) = Some enc
        \<and> (\<exists>m \<in> set (history_or_empty history).
              encode tk enc (message_text_of m) = None) \<longrightarrow>
        update_token_count tk s history = s)
   \<and> (\<forall>m. (\<forall>kvs. m \<noteq> PDict kvs) \<longrightarrow> message_text_of m = PStr '''')
   \<and> (\<forall>kvs. message_text_of (PDict kvs)
           = (case map_of kvs ''message_text'' of Some v \<Rightarrow> v | None \<Rightarrow> PStr ''''))"
proof -
  have counted: "token_count (update_token_count tk s history)
        = (\<Sum>m\<leftarrow>history_or_empty history. int (length (toks m)))"
    if "get_encoding_for_model tk (model s) = Some enc"
      and "\<forall>m \<in> set (history_or_empty history).
            encode tk enc (message_text_of m) = Some (toks m)"
    using that by (intro update_token_count_all_encoded) blast+
  have unselected: "update_token_count tk s history = s"
    if "get_encoding_for_model tk (model s) = None"
    using that by (simp add: update_token_count_keeps_on_failure)
  have refused: "update_token_count tk s history = s"
    if "get_encoding_for_model tk (model s) = Some enc"
      and "\<exists>m \<in> set (history_or_empty history). encode tk enc (message_text_of m) = None"
    using that by (intro update_token_count_keeps_on_failure) blast
  from counted unselected refused show ?thesis
    by (simp add: message_text_of_not_dict message_text_of_cases)
qed

theorem update_token_count_sum_or_kept_witness:
  "get_encoding_for_model char_tokenizer ''gpt-4o'' = Some ()
   \<and> token_count (update_token_count char_tokenizer
        \<lparr> api_key = ''sk-test'', model = ''gpt-4o'', reasoning_effort = None,
          previous_response_id = Some ''resp_1'', token_count = 0 \<rparr>
        (Some [history_record ''user'' ''Hi'', PInt 7, history_record ''model'' ''Hello!'']))
     = 8
   \<and> encode special_token_tokenizer () (message_text_of (history_record ''user'' ''<|endoftext|>''))
     = None
   \<and> token_count (update_token_count special_token_tokenizer
        \<lparr> api_key = ''sk-test'', model = ''gpt-4o'', reasoning_effort = None,
          previous_response_id = Some ''resp_1'', token_count = 8 \<rparr>
        (Some [history_record ''user'' ''<|endoftext|>'', history_record ''model'' ''Sure.'']))
     = 8"
proof -
  let ?s = "\<lparr> api_key = ''sk-test'', model = ''gpt-4o'', reasoning_effort = None,
          previous_response_id = Some ''resp_1'', token_count = 0 \<rparr>"
  let ?h = "Some [history_record ''user'' ''Hi'', PInt 7, history_record ''model'' ''Hello!'']"
  let ?toks = "\<lambda>m. if m = history_record ''user'' ''Hi'' then [72, 105]
                    else if m = PInt 7 then [] else [72, 101, 108, 108, 111, 33::nat]"
  let ?s' = "\<lparr> api_key = ''sk-test'', model = ''gpt-4o'', reasoning_effort = None,
          previous_response_id = Some ''resp_1'', token_count = 8 \<rparr>"
  let ?h' = "Some [history_record ''user'' ''<|endoftext|>'', history_record ''model'' ''Sure.'']"
  have selected: "get_encoding_for_model char_tokenizer (model ?s) = Some ()"
    by (simp add: get_encoding_for_model_def char_tokenizer_def)
  have encoded: "\<forall>m \<in> set (history_or_empty ?h).
      encode char_tokenizer () (message_text_of m) = Some (?toks m)"
    by (auto simp: history_or_empty_def history_record_def message_text_of_def dict_get_def
          char_tokenizer_def)
  from update_token_count_sum_or_kept
         [where tk = char_tokenizer and s = ?s and enc = "()" and history = ?h and toks = ?toks]
       selected encoded
  have "token_count (update_token_count char_tokenizer ?s ?h)
          = (\<Sum>m\<leftarrow>history_or_empty ?h. int (length (?toks m)))"
    by blast
  also have "\<dots> = 8"
    by (simp add: history_or_empty_def history_record_def)
  finally have first: "token_count (update_token_count char_tokenizer ?s ?h) = 8" .
  have selected': "get_encoding_for_model special_token_tokenizer (model ?s') = Some ()"
    by (simp add: get_encoding_for_model_def special_token_tokenizer_def)
  have raises: "encode special_token_tokenizer ()
      (message_text_of (history_record ''user'' ''<|endoftext|>'')) = None"
    by (simp add: special_token_tokenizer_def message_text_of_def dict_get_def
          history_record_def startswith_def)
  then have some: "\<exists>m \<in> set (history_or_empty ?h').
      encode special_token_tokenizer () (message_text_of m) = None"
    by (simp add: history_or_empty_def)
  from update_token_count_sum_or_kept
         [where tk = special_token_tokenizer and s = ?s' and enc = "()" and history = ?h']
       selected' some
  have "update_token_count special_token_tokenizer ?s' ?h' = ?s'"
    by blast
  then have second: "token_count (update_token_count special_token_tokenizer ?s' ?h') = 8"
    by simp
  from first second selected raises show ?thesis by simp
qed

text \<open>
  C3 as stated fails. The first exchange is counted as 2 + 6 = 8 tokens. The second
  prompt contains the special token, so its encoding raises; the history then has four
  records, three of which alone encode to 13 tokens, and \<open>token_count\<close> is still 8.
\<close>

theorem stale_token_count_counterexample:
  "token_count (OpenAI_chat_session (conversation_after
      (send_message scripted_api special_token_tokenizer
         [Inr (text_response (Some ''resp_1'') ''Hello!'')]
         (Conversation_init ''sk-test'' ''Chat 1'' ''gpt-4o'') ''Hi''))) = 8
   \<and> chat_history (conversation_after
      (send_message scripted_api special_token_tokenizer
         [Inr (text_response (Some ''resp_2'') ''Sure.'')]
         (conversation_after
            (send_message scripted_api special_token_tokenizer
               [Inr (text_response (Some ''resp_1'') ''Hello!'')]
               (Conversation_init ''sk-test'' ''Chat 1'' ''gpt-4o'') ''Hi''))
         ''<|endoftext|>''))
     = [history_record ''user'' ''Hi'', history_record ''model'' ''Hello!'',
        history_record ''user'' ''<|endoftext|>'', history_record ''model'' ''Sure.'']
   \<and> token_count (OpenAI_chat_session (conversation_after
      (send_message scripted_api special_token_tokenizer
         [Inr (text_response (Some ''resp_2'') ''Sure.'')]
         (conversation_after
            (send_message scripted_api special_token_tokenizer
               [Inr (text_response (Some ''resp_1'') ''Hello!'')]
               (Conversation_init ''sk-test'' ''Chat 1'' ''gpt-4o'') ''Hi''))
         ''<|endoftext|>''))) = 8
   \<and> map (map_option length \<circ> encode special_token_tokenizer ())
         [PStr ''Hi'', PStr ''Hello!'', PStr ''<|endoftext|>'', PStr ''Sure.'']
     = [Some 2, Some 6, None, Some 5]"
  by (simp add: eval_defs special_token_tokenizer_def)




section \<open>The shape of the stored history\<close>

lemma history_shape_Nil: "history_shape []"
  by (simp add: history_shape_def)

lemma history_shape_append:
  assumes "history_shape h"
  shows "history_shape (h @ [history_record ''user'' prompt, history_record ''model'' t])"
proof -
  let ?h' = "h @ [history_record ''user'' prompt, history_record ''model'' t]"
  from assms have ev: "even (length h)"
    and old: "\<And>i. i < length h \<Longrightarrow> \<exists>text. h ! i =
           PDict [(''role'', PStr (if even i then ''user'' else ''model'')),
                  (''message_text'', PStr text)]"
    by (simp_all add: history_shape_def)
  have "\<exists>text. ?h' ! i =
           PDict [(''role'', PStr (if even i then ''user'' else ''model'')),
                  (''message_text'', PStr text)]" if "i < length ?h'" for i
  proof -
    from that consider "i < length h" | "i = length h" | "i = Suc (length h)"
      by fastforce
    then show ?thesis
    proof cases
      case 1
      then show ?thesis using old [of i] by (simp add: nth_append)
    next
      case 2
      then show ?thesis using ev by (simp add: nth_append history_record_def)
    next
      case 3
      then show ?thesis using ev by (simp add: nth_append history_record_def)
    qed
  qed
  with ev show ?thesis by (simp add: history_shape_def)
qed

lemma reachable_history_shape:
  "reachable api tk key m c \<Longrightarrow> history_shape (chat_history c)"
proof (induction rule: reachable.induct)
  case (created nm)
  show ?case by (simp add: Conversation_init_def history_shape_Nil)
next
  case (sent c w prompt)
  then show ?case
    by (simp add: send_message_history history_shape_append split: option.splits)
next
  case (effort_set c effort)
  then show ?case by (simp add: set_reasoning_effort_frame)
qed

text \<open>
  C6. The history of a new conversation is empty. In every state a conversation can
  reach, the history has even length and its record at position \<open>i\<close> is a dict with
  exactly the two fields \<open>role\<close> and \<open>message_text\<close>, the text a string and the role
  \<open>user\<close> at even positions and \<open>model\<close> at odd ones.
\<close>

theorem chat_history_alternates:
  "chat_history (Conversation_init key nm m) = []
   \<and> (reachable api tk key m c \<longrightarrow>
        even (length (chat_history c))
        \<and> (\<forall>i < length (chat_history c). \<exists>text. chat_history c ! i =
              PDict [(''role'', PStr (if even i then ''user'' else ''model'')),
                     (''message_text'', PStr text)]))"
  using reachable_history_shape [of api tk key m c]
  by (simp add: Conversation_init_def history_shape_def)

theorem chat_history_alternates_witness:
  "reachable scripted_api char_tokenizer ''sk-test'' ''gpt-4o''
     (conversation_after (send_message scripted_api char_tokenizer
        [Inr (text_response (Some ''resp_1'') ''Hello!'')]
        (Conversation_init ''sk-test'' ''Chat 1'' ''gpt-4o'') ''Hi''))
   \<and> length (chat_history (conversation_after (send_message scripted_api char_tokenizer
        [Inr (text_response (Some ''resp_1'') ''Hello!'')]
        (Conversation_init ''sk-test'' ''Chat 1'' ''gpt-4o'') ''Hi''))) = 2
   \<and> (\<exists>text. chat_history (conversation_after (send_message scripted_api char_tokenizer
        [Inr (text_response (Some ''resp_1'') ''Hello!'')]
        (Conversation_init ''sk-test'' ''Chat 1'' ''gpt-4o'') ''Hi'')) ! 1
         = PDict [(''role'', PStr ''model''), (''message_text'', PStr text)])"
proof -
  let ?c = "conversation_after (send_message scripted_api char_tokenizer
        [Inr (text_response (Some ''resp_1'') ''Hello!'')]
        (Conversation_init ''sk-test'' ''Chat 1'' ''gpt-4o'') ''Hi'')"
  have r: "reachable scripted_api char_tokenizer ''sk-test'' ''gpt-4o'' ?c"
    by (intro reachable.sent reachable.created)
  have len: "length (chat_history ?c) = 2"
    by (simp add: eval_defs)
  from chat_history_alternates
         [where api = scripted_api and tk = char_tokenizer and key = "''sk-test''"
            and m = "''gpt-4o''" and c = ?c] r
  have "\<forall>i < length (chat_history ?c). \<exists>text. chat_history ?c ! i =
              PDict [(''role'', PStr (if even i then ''user'' else ''model'')),
                     (''message_text'', PStr text)]"
    by blast
  with len have "\<exists>text. chat_history ?c ! 1 =
              PDict [(''role'', PStr (if even (1::nat) then ''user'' else ''model'')),
                     (''message_text'', PStr text)]"
    by (metis one_less_numeral_iff semiring_norm(76))
  with r len show ?thesis by simp
qed

section \<open>The message list\<close>

lemma capitalize_roles: "capitalize ''user'' = ''User''" "capitalize ''model'' = ''Model''"
  by code_simp+

lemma insert_message_to_treeview_fields:
  "fst (insert_message_to_treeview app role message_content) = tree_counter app"
  "tree_counter (snd (insert_message_to_treeview app role message_content)) = Suc (tree_counter app)"
  "messages_tree (snd (insert_message_to_treeview app role message_content)) =
     messages_tree app
       @ [\<lparr> item_id = tree_counter app,
            item_text = capitalize role @ '': ''
              @ (if length message_content \<le> 20 then message_content
                 else take 20 message_content @ ''...''),
            item_tags = (if role = ''model'' then [''ai_message''] else []) \<rparr>]"
  "message_node_to_content (snd (insert_message_to_treeview app role message_content))
     = message_node_to_content app"
  "conversation_ids (snd (insert_message_to_treeview app role message_content))
     = conversation_ids app"
  by (simp_all add: insert_message_to_treeview_def tree_insert_def Let_def)

lemma display_messages_Cons:
  assumes "display_messages nm app (msg # rest) = Some app'"
  obtains role mtext app2 where
    "subscript_str msg ''role'' = Some role"
    "subscript_str msg ''message_text'' = Some mtext"
    "display_messages nm app2 rest = Some app'"
    "tree_counter app2 = Suc (tree_counter app)"
    "messages_tree app2 =
       messages_tree app
         @ [\<lparr> item_id = tree_counter app,
              item_text = capitalize role @ '': ''
                @ (if length mtext \<le> 20 then mtext else take 20 mtext @ ''...''),
              item_tags = (if role = ''model'' then [''ai_message''] else []) \<rparr>]"
    "message_node_to_content app2 = (message_node_to_content app)(tree_counter app \<mapsto> msg)"
proof -
  from assms obtain role mtext where rt:
    "subscript_str msg ''role'' = Some role" "subscript_str msg ''message_text'' = Some mtext"
    by (auto split: option.splits)
  let ?ins = "insert_message_to_treeview app role mtext"
  from assms rt obtain ids where ids: "conversation_ids (snd ?ins) nm = Some ids"
    by (auto simp: case_prod_unfold Let_def split: option.splits)
  let ?app2 = "(snd ?ins)\<lparr>conversation_ids := (conversation_ids (snd ?ins))(nm \<mapsto> ids @ [fst ?ins]),
                 message_node_to_content := (message_node_to_content (snd ?ins))(fst ?ins \<mapsto> msg)\<rparr>"
  from assms rt ids have "display_messages nm ?app2 rest = Some app'"
    by (simp add: case_prod_unfold Let_def)
  then show ?thesis
    using rt by (intro that [of role mtext ?app2]) (simp_all add: insert_message_to_treeview_fields)
qed

lemma display_messages_result:
  "display_messages nm app h = Some app' \<Longrightarrow>
     tree_counter app' = tree_counter app + length h
     \<and> length (messages_tree app') = length (messages_tree app) + length h
     \<and> (\<forall>i < length (messages_tree app). messages_tree app' ! i = messages_tree app ! i)
     \<and> (\<forall>k < tree_counter app. message_node_to_content app' k = message_node_to_content app k)
     \<and> (\<forall>i < length h. \<exists>role mtext.
           subscript_str (h ! i) ''role'' = Some role
           \<and> subscript_str (h ! i) ''message_text'' = Some mtext
           \<and> messages_tree app' ! (length (messages_tree app) + i) =
               \<lparr> item_id = tree_counter app + i,
                 item_text = capitalize role @ '': ''
                   @ (if length mtext \<le> 20 then mtext else take 20 mtext @ ''...''),
                 item_tags = (if role = ''model'' then [''ai_message''] else []) \<rparr>
           \<and> message_node_to_content app' (tree_counter app + i) = Some (h ! i))"
proof (induction h arbitrary: app)
  case Nil
  then show ?case by simp
next
  case (Cons msg rest)
  from Cons.prems obtain role mtext app2 where
    role: "subscript_str msg ''role'' = Some role"
    and mtext: "subscript_str msg ''message_text'' = Some mtext"
    and rest: "display_messages nm app2 rest = Some app'"
    and counter: "tree_counter app2 = Suc (tree_counter app)"
    and tree: "messages_tree app2 =
       messages_tree app
         @ [\<lparr> item_id = tree_counter app,
              item_text = capitalize role @ '': ''
                @ (if length mtext \<le> 20 then mtext else take 20 mtext @ ''...''),
              item_tags = (if role = ''model'' then [''ai_message''] else []) \<rparr>]"
    and content: "message_node_to_content app2 = (message_node_to_content app)(tree_counter app \<mapsto> msg)"
    by (rule display_messages_Cons)
  note IH = Cons.IH [OF rest]
  from IH have c': "tree_counter app' = tree_counter app2 + length rest"
    and l': "length (messages_tree app') = length (messages_tree app2) + length rest"
    and keep_tree: "\<And>i. i < length (messages_tree app2) \<Longrightarrow>
                      messages_tree app' ! i = messages_tree app2 ! i"
    and keep_content: "\<And>k. k < tree_counter app2 \<Longrightarrow>
                      message_node_to_content app' k = message_node_to_content app2 k"
    and later: "\<And>i. i < length rest \<Longrightarrow> \<exists>role mtext.
           subscript_str (rest ! i) ''role'' = Some role
           \<and> subscript_str (rest ! i) ''message_text'' = Some mtext
           \<and> messages_tree app' ! (length (messages_tree app2) + i) =
               \<lparr> item_id = tree_counter app2 + i,
                 item_text = capitalize role @ '': ''
                   @ (if length mtext \<le> 20 then mtext else take 20 mtext @ ''...''),
                 item_tags = (if role = ''model'' then [''ai_message''] else []) \<rparr>
           \<and> message_node_to_content app' (tree_counter app2 + i) = Some (rest ! i)"
    by blast+
  have len2: "length (messages_tree app2) = Suc (length (messages_tree app))"
    using tree by simp
  have one: "tree_counter app' = tree_counter app + length (msg # rest)"
    using c' counter by simp
  have two: "length (messages_tree app') = length (messages_tree app) + length (msg # rest)"
    using l' len2 by simp
  have three: "messages_tree app' ! i = messages_tree app ! i"
    if "i < length (messages_tree app)" for i
    using that keep_tree [of i] len2 tree by (simp add: nth_append)
  have four: "message_node_to_content app' k = message_node_to_content app k"
    if "k < tree_counter app" for k
    using that keep_content [of k] counter content by simp
  have five: "\<exists>role mtext.
           subscript_str ((msg # rest) ! i) ''role'' = Some role
           \<and> subscript_str ((msg # rest) ! i) ''message_text'' = Some mtext
           \<and> messages_tree app' ! (length (messages_tree app) + i) =
               \<lparr> item_id = tree_counter app + i,
                 item_text = capitalize role @ '': ''
                   @ (if length mtext \<le> 20 then mtext else take 20 mtext @ ''...''),
                 item_tags = (if role = ''model'' then [''ai_message''] else []) \<rparr>
           \<and> message_node_to_content app' (tree_counter app + i) = Some ((msg # rest) ! i)"
    if "i < length (msg # rest)" for i
  proof (cases i)
    case 0
    have "messages_tree app' ! length (messages_tree app)
            = messages_tree app2 ! length (messages_tree app)"
      using keep_tree [of "length (messages_tree app)"] len2 by simp
    moreover have "message_node_to_content app' (tree_counter app) = Some msg"
      using keep_content [of "tree_counter app"] counter content by simp
    ultimately show ?thesis
      using 0 role mtext tree by simp
  next
    case (Suc j)
    with that have "j < length rest" by simp
    from later [OF this] show ?thesis
      using Suc len2 counter by simp
  qed
  from one two three four five show ?case by blast
qed

lemma display_conversation_result:
  assumes "display_conversation_in_treeview app conversation = Some app'"
  shows "length (messages_tree app') = length (chat_history conversation)"
    and "\<And>i. i < length (chat_history conversation) \<Longrightarrow> \<exists>role mtext.
           subscript_str (chat_history conversation ! i) ''role'' = Some role
           \<and> subscript_str (chat_history conversation ! i) ''message_text'' = Some mtext
           \<and> item_text (messages_tree app' ! i) =
               capitalize role @ '': ''
                 @ (if length mtext \<le> 20 then mtext else take 20 mtext @ ''...'')
           \<and> message_node_to_content app' (item_id (messages_tree app' ! i))
               = Some (chat_history conversation ! i)"
proof -
  let ?start = "app\<lparr>messages_tree := [],
            message_node_to_content := Map.empty,
            conversation_ids := (conversation_ids app)(name conversation \<mapsto> [])\<rparr>"
  from assms have run:
    "display_messages (name conversation) ?start (chat_history conversation) = Some app'"
    by (simp add: display_conversation_in_treeview_def get_history_def)
  note result = display_messages_result [OF run]
  from result show "length (messages_tree app') = length (chat_history conversation)"
    by simp
  fix i
  assume "i < length (chat_history conversation)"
  with result obtain role mtext where
    "subscript_str (chat_history conversation ! i) ''role'' = Some role"
    "subscript_str (chat_history conversation ! i) ''message_text'' = Some mtext"
    "messages_tree app' ! (length (messages_tree ?start) + i) =
               \<lparr> item_id = tree_counter ?start + i,
                 item_text = capitalize role @ '': ''
                   @ (if length mtext \<le> 20 then mtext else take 20 mtext @ ''...''),
                 item_tags = (if role = ''model'' then [''ai_message''] else []) \<rparr>"
    "message_node_to_content app' (tree_counter ?start + i) = Some (chat_history conversation ! i)"
    by blast
  then show "\<exists>role mtext.
           subscript_str (chat_history conversation ! i) ''role'' = Some role
           \<and> subscript_str (chat_history conversation ! i) ''message_text'' = Some mtext
           \<and> item_text (messages_tree app' ! i) =
               capitalize role @ '': ''
                 @ (if length mtext \<le> 20 then mtext else take 20 mtext @ ''...'')
           \<and> message_node_to_content app' (item_id (messages_tree app' ! i))
               = Some (chat_history conversation ! i)"
    by (intro exI [of _ role] exI [of _ mtext]) simp
qed

lemma send_prompt_store_result:
  "length (messages_tree (send_prompt_store app nm prompt_text ai_reply_text))
     = length (messages_tree app) + 2"
  "item_text (messages_tree (send_prompt_store app nm prompt_text ai_reply_text)
               ! length (messages_tree app))
     = ''User: '' @ (if length prompt_text \<le> 20 then prompt_text
                     else take 20 prompt_text @ ''...'')"
  "item_text (messages_tree (send_prompt_store app nm prompt_text ai_reply_text)
               ! Suc (length (messages_tree app)))
     = ''Model: '' @ (if length ai_reply_text \<le> 20 then ai_reply_text
                      else take 20 ai_reply_text @ ''...'')"
  "message_node_to_content (send_prompt_store app nm prompt_text ai_reply_text)
     (item_id (messages_tree (send_prompt_store app nm prompt_text ai_reply_text)
                ! length (messages_tree app)))
     = Some (PDict [(''role'', PStr ''user''), (''message_text'', PStr prompt_text)])"
  "message_node_to_content (send_prompt_store app nm prompt_text ai_reply_text)
     (item_id (messages_tree (send_prompt_store app nm prompt_text ai_reply_text)
                ! Suc (length (messages_tree app))))
     = Some (PDict [(''role'', PStr ''model''), (''message_text'', PStr ai_reply_text)])"
  by (simp_all add: send_prompt_store_def case_prod_unfold Let_def
        insert_message_to_treeview_fields capitalize_roles nth_append history_record_def)

text \<open>
  C10. \<open>_insert_message_to_treeview\<close> appends one item whose text is the capitalized
  role, a colon and a space, and then the whole message when it has at most 20
  characters, or its first 20 characters and \<open>...\<close> when it is longer. Both callers
  store the full record under the id of the new item: after a conversation is redrawn,
  and after a prompt and its reply are added, the item at each position shows the
  truncated text and \<open>message_node_to_content\<close> at that item's id holds the record with
  the whole text.
\<close>

theorem treeview_display_truncation:
  "messages_tree (snd (insert_message_to_treeview app role message_content)) =
     messages_tree app
       @ [\<lparr> item_id = fst (insert_message_to_treeview app role message_content),
            item_text = capitalize role @ '': ''
              @ (if length message_content \<le> 20 then message_content
                 else take 20 message_content @ ''...''),
            item_tags = (if role = ''model'' then [''ai_message''] else []) \<rparr>]
   \<and> capitalize ''user'' = ''User'' \<and> capitalize ''model'' = ''Model''
   \<and> (display_conversation_in_treeview app conversation = Some app' \<longrightarrow>
        length (messages_tree app') = length (chat_history conversation)
        \<and> (\<forall>i < length (chat_history conversation). \<exists>role mtext.
              subscript_str (chat_history conversation ! i) ''role'' = Some role
              \<and> subscript_str (chat_history conversation ! i) ''message_text'' = Some mtext
              \<and> item_text (messages_tree app' ! i) =
                  capitalize role @ '': ''
                    @ (if length mtext \<le> 20 then mtext else take 20 mtext @ ''...'')
              \<and> message_node_to_content app' (item_id (messages_tree app' ! i))
                  = Some (chat_history conversation ! i)))
   \<and> length (messages_tree (send_prompt_store app nm prompt_text ai_reply_text))
       = length (messages_tree app) + 2
   \<and> item_text (messages_tree (send_prompt_store app nm prompt_text ai_reply_text)
                 ! length (messages_tree app))
       = ''User: '' @ (if length prompt_text \<le> 20 then prompt_text
                       else take 20 prompt_text @ ''...'')
   \<and> item_text (messages_tree (send_prompt_store app nm prompt_text ai_reply_text)
                 ! Suc (length (messages_tree app)))
       = ''Model: '' @ (if length ai_reply_text \<le> 20 then ai_reply_text
                        else take 20 ai_reply_text @ ''...'')
   \<and> message_node_to_content (send_prompt_store app nm prompt_text ai_reply_text)
       (item_id (messages_tree (send_prompt_store app nm prompt_text ai_reply_text)
                  ! length (messages_tree app)))
       = Some (PDict [(''role'', PStr ''user''), (''message_text'', PStr prompt_text)])
   \<and> message_node_to_content (send_prompt_store app nm prompt_text ai_reply_text)
       (item_id (messages_tree (send_prompt_store app nm prompt_text ai_reply_text)
                  ! Suc (length (messages_tree app))))
       = Some (PDict [(''role'', PStr ''model''), (''message_text'', PStr ai_reply_text)])"
proof -
  have inserted:
    "messages_tree (snd (insert_message_to_treeview app role message_content)) =
     messages_tree app
       @ [\<lparr> item_id = fst (insert_message_to_treeview app role message_content),
            item_text = capitalize role @ '': ''
              @ (if length message_content \<le> 20 then message_content
                 else take 20 message_content @ ''...''),
            item_tags = (if role = ''model'' then [''ai_message''] else []) \<rparr>]"
    by (simp add: insert_message_to_treeview_fields)
  have redrawn:
    "length (messages_tree app') = length (chat_history conversation)
        \<and> (\<forall>i < length (chat_history conversation). \<exists>role mtext.
              subscript_str (chat_history conversation ! i) ''role'' = Some role
              \<and> subscript_str (chat_history conversation ! i) ''message_text'' = Some mtext
              \<and> item_text (messages_tree app' ! i) =
                  capitalize role @ '': ''
                    @ (if length mtext \<le> 20 then mtext else take 20 mtext @ ''...'')
              \<and> message_node_to_content app' (item_id (messages_tree app' ! i))
                  = Some (chat_history conversation ! i))"
    if "display_conversation_in_treeview app conversation = Some app'"
    using display_conversation_result [OF that] by blast
  have stored:
    "length (messages_tree (send_prompt_store app nm prompt_text ai_reply_text))
       = length (messages_tree app) + 2
   \<and> item_text (messages_tree (send_prompt_store app nm prompt_text ai_reply_text)
                 ! length (messages_tree app))
       = ''User: '' @ (if length prompt_text \<le> 20 then prompt_text
                       else take 20 prompt_text @ ''...'')
   \<and> item_text (messages_tree (send_prompt_store app nm prompt_text ai_reply_text)
                 ! Suc (length (messages_tree app)))
       = ''Model: '' @ (if length ai_reply_text \<le> 20 then ai_reply_text
                        else take 20 ai_reply_text @ ''...'')
   \<and> message_node_to_content (send_prompt_store app nm prompt_text ai_reply_text)
       (item_id (messages_tree (send_prompt_store app nm prompt_text ai_reply_text)
                  ! length (messages_tree app)))
       = Some (PDict [(''role'', PStr ''user''), (''message_text'', PStr prompt_text)])
   \<and> message_node_to_content (send_prompt_store app nm prompt_text ai_reply_text)
       (item_id (messages_tree (send_prompt_store app nm prompt_text ai_reply_text)
                  ! Suc (length (messages_tree app))))
       = Some (PDict [(''role'', PStr ''model''), (''message_text'', PStr ai_reply_text)])"
    by (intro conjI) (rule send_prompt_store_result)+
  have roles: "capitalize ''user'' = ''User'' \<and> capitalize ''model'' = ''Model''"
    by (intro conjI) (rule capitalize_roles)+
  from redrawn have redrawn':
    "display_conversation_in_treeview app conversation = Some app' \<longrightarrow>
        length (messages_tree app') = length (chat_history conversation)
        \<and> (\<forall>i < length (chat_history conversation). \<exists>role mtext.
              subscript_str (chat_history conversation ! i) ''role'' = Some role
              \<and> subscript_str (chat_history conversation ! i) ''message_text'' = Some mtext
              \<and> item_text (messages_tree app' ! i) =
                  capitalize role @ '': ''
                    @ (if length mtext \<le> 20 then mtext else take 20 mtext @ ''...'')
              \<and> message_node_to_content app' (item_id (messages_tree app' ! i))
                  = Some (chat_history conversation ! i))"
    by (rule impI)
  show ?thesis
    by (rule conjI [OF inserted conjI [OF roles [THEN conjunct1]
          conjI [OF roles [THEN conjunct2] conjI [OF redrawn' stored]]]])
qed

theorem treeview_display_truncation_witness:
  "display_conversation_in_treeview
     \<lparr> messages_tree = [], tree_counter = 0, message_node_to_content = Map.empty,
       conversation_ids = Map.empty \<rparr>
     \<lparr> name = ''Chat 1'',
       chat_history = [history_record ''user'' ''Hi'',
                       history_record ''model'' ''Hello! How can I help you today?''],
       OpenAI_chat_session = OpenAIChatSession_init ''sk-test'' ''gpt-4o'' \<rparr> \<noteq> None
   \<and> item_text (messages_tree (the (display_conversation_in_treeview
     \<lparr> messages_tree = [], tree_counter = 0, message_node_to_content = Map.empty,
       conversation_ids = Map.empty \<rparr>
     \<lparr> name = ''Chat 1'',
       chat_history = [history_record ''user'' ''Hi'',
                       history_record ''model'' ''Hello! How can I help you today?''],
       OpenAI_chat_session = OpenAIChatSession_init ''sk-test'' ''gpt-4o'' \<rparr>)) ! 1)
     = ''Model: Hello! How can I hel...''
   \<and> message_node_to_content (the (display_conversation_in_treeview
     \<lparr> messages_tree = [], tree_counter = 0, message_node_to_content = Map.empty,
       conversation_ids = Map.empty \<rparr>
     \<lparr> name = ''Chat 1'',
       chat_history = [history_record ''user'' ''Hi'',
                       history_record ''model'' ''Hello! How can I help you today?''],
       OpenAI_chat_session = OpenAIChatSession_init ''sk-test'' ''gpt-4o'' \<rparr>))
       (item_id (messages_tree (the (display_conversation_in_treeview
     \<lparr> messages_tree = [], tree_counter = 0, message_node_to_content = Map.empty,
       conversation_ids = Map.empty \<rparr>
     \<lparr> name = ''Chat 1'',
       chat_history = [history_record ''user'' ''Hi'',
                       history_record ''model'' ''Hello! How can I help you today?''],
       OpenAI_chat_session = OpenAIChatSession_init ''sk-test'' ''gpt-4o'' \<rparr>)) ! 1))
     = Some (history_record ''model'' ''Hello! How can I help you today?'')"
proof -
  let ?app = "\<lparr> messages_tree = [], tree_counter = 0, message_node_to_content = Map.empty,
       conversation_ids = Map.empty \<rparr>"
  let ?c = "\<lparr> name = ''Chat 1'',
       chat_history = [history_record ''user'' ''Hi'',
                       history_record ''model'' ''Hello! How can I help you today?''],
       OpenAI_chat_session = OpenAIChatSession_init ''sk-test'' ''gpt-4o'' \<rparr>"
  have "display_conversation_in_treeview ?app ?c \<noteq> None"
    by (simp add: display_conversation_in_treeview_def get_history_def history_record_def
          subscript_str_def insert_message_to_treeview_def tree_insert_def Let_def)
  then obtain app' where run: "display_conversation_in_treeview ?app ?c = Some app'"
    by blast
  have second: "subscript_str (chat_history ?c ! 1) ''role'' = Some ''model''"
    "subscript_str (chat_history ?c ! 1) ''message_text''
       = Some ''Hello! How can I help you today?''"
    by (simp_all add: history_record_def subscript_str_def)
  from treeview_display_truncation [where app = ?app and conversation = ?c and app' = app'] run
  have "\<forall>i < length (chat_history ?c). \<exists>role mtext.
              subscript_str (chat_history ?c ! i) ''role'' = Some role
              \<and> subscript_str (chat_history ?c ! i) ''message_text'' = Some mtext
              \<and> item_text (messages_tree app' ! i) =
                  capitalize role @ '': ''
                    @ (if length mtext \<le> 20 then mtext else take 20 mtext @ ''...'')
              \<and> message_node_to_content app' (item_id (messages_tree app' ! i))
                  = Some (chat_history ?c ! i)"
    by blast
  moreover have "(1::nat) < length (chat_history ?c)"
    by simp
  ultimately obtain role mtext where found:
      "subscript_str (chat_history ?c ! 1) ''role'' = Some role"
      "subscript_str (chat_history ?c ! 1) ''message_text'' = Some mtext"
      "item_text (messages_tree app' ! 1) =
         capitalize role @ '': ''
           @ (if length mtext \<le> 20 then mtext else take 20 mtext @ ''...'')"
      "message_node_to_content app' (item_id (messages_tree app' ! 1))
         = Some (chat_history ?c ! 1)"
    by blast
  from found(1) second(1) have role: "role = ''model''"
    by (simp only: option.inject)
  from found(2) second(2) have mtext: "mtext = ''Hello! How can I help you today?''"
    by (simp only: option.inject)
  from found(3,4) have
      "item_text (messages_tree app' ! 1) = ''Model: Hello! How can I hel...''"
      "message_node_to_content app' (item_id (messages_tree app' ! 1))
         = Some (history_record ''model'' ''Hello! How can I help you today?'')"
    unfolding role mtext by (simp_all add: capitalize_roles)
  with run show ?thesis by simp
qed

end
